theory Spec2Isabelle
  imports Complex_Main
begin

section \<open>Numbers\<close>

text \<open>
  A JavaScript \<open>number\<close> that comes from outside (a pointer coordinate, a speed, a
  duration) is either \<open>NaN\<close> or a value. Continuous quantities are idealised as
  reals (no rounding of doubles, no infinities); fret numbers, pitch numbers and string
  indices, which every call site of the repository produces with \<open>Math.round\<close>
  followed by \<open>clamp\<close> or writes as integer literals, are integers.
\<close>

datatype 'a number = NaN | Val 'a

fun lift1 :: "('a \<Rightarrow> 'b) \<Rightarrow> 'a number \<Rightarrow> 'b number" where
  "lift1 f NaN = NaN"
| "lift1 f (Val a) = Val (f a)"

fun lift2 :: "('a \<Rightarrow> 'b \<Rightarrow> 'c) \<Rightarrow> 'a number \<Rightarrow> 'b number \<Rightarrow> 'c number" where
  "lift2 f (Val a) (Val b) = Val (f a b)"
| "lift2 f _ _ = NaN"

text \<open>Comparisons with \<open>NaN\<close> are false.\<close>

fun num_le :: "'a::linorder number \<Rightarrow> 'a number \<Rightarrow> bool" where
  "num_le (Val a) (Val b) = (a \<le> b)"
| "num_le _ _ = False"

fun num_less :: "'a::linorder number \<Rightarrow> 'a number \<Rightarrow> bool" where
  "num_less (Val a) (Val b) = (a < b)"
| "num_less _ _ = False"

text \<open>\<open>Math.round\<close>: the nearest integer, a tie going up.\<close>

definition Math_round :: "real \<Rightarrow> int" where
  "Math_round x = \<lfloor>x + 1 / 2\<rfloor>"

text \<open>\<open>Math.max\<close> and \<open>Math.min\<close> return \<open>NaN\<close> when an argument is \<open>NaN\<close>.\<close>

definition Math_max :: "'a::linorder number \<Rightarrow> 'a number \<Rightarrow> 'a number" where
  "Math_max = lift2 max"

definition Math_min :: "'a::linorder number \<Rightarrow> 'a number \<Rightarrow> 'a number" where
  "Math_min = lift2 min"

text \<open>
  \<open>clamp(value, min, max)\<close>: \<open>min\<close> for \<open>NaN\<close>, otherwise
  \<open>Math.min(max, Math.max(min, value))\<close>. The bounds are constants at every call.
\<close>

fun clamp :: "'a::linorder number \<Rightarrow> 'a \<Rightarrow> 'a \<Rightarrow> 'a" where
  "clamp NaN lo hi = lo"
| "clamp (Val v) lo hi = min hi (max lo v)"

definition clamp01 :: "real number \<Rightarrow> real number" where
  "clamp01 v = Math_max (Val 0) (Math_min (Val 1) v)"

section \<open>Velocity and distance curves\<close>

definition mapSpeedToVelocity :: "real number \<Rightarrow> real" where
  "mapSpeedToVelocity speed = clamp (lift1 (\<lambda>s. s * (6 / 10)) speed) (25 / 100) 1"

definition mapTapDurationToVelocity :: "real number \<Rightarrow> real" where
  "mapTapDurationToVelocity durationMs =
     clamp (lift1 (\<lambda>d. 1 - d / 350) durationMs) (2 / 10) (9 / 10)"

definition mapDistanceToSlideSemitones :: "real number \<Rightarrow> real" where
  "mapDistanceToSlideSemitones distance = clamp (lift1 (\<lambda>d. d / 40) distance) 1 6"

section \<open>Instrument model\<close>

datatype GuitarStringId = highE | Bstring | Gstring | Dstring | Astring | lowE

record GuitarStringDefinition =
  string_id :: GuitarStringId
  string_name :: string
  string_label :: string
  string_frequency :: real
  string_midi :: int
  string_order :: nat

definition GUITAR_STRINGS :: "GuitarStringDefinition list" where
  "GUITAR_STRINGS =
    [\<lparr>string_id = highE, string_name = ''High E'', string_label = ''E4'',
      string_frequency = 32963 / 100, string_midi = 64, string_order = 0\<rparr>,
     \<lparr>string_id = Bstring, string_name = ''B'', string_label = ''B3'',
      string_frequency = 24694 / 100, string_midi = 59, string_order = 1\<rparr>,
     \<lparr>string_id = Gstring, string_name = ''G'', string_label = ''G3'',
      string_frequency = 196, string_midi = 55, string_order = 2\<rparr>,
     \<lparr>string_id = Dstring, string_name = ''D'', string_label = ''D3'',
      string_frequency = 14683 / 100, string_midi = 50, string_order = 3\<rparr>,
     \<lparr>string_id = Astring, string_name = ''A'', string_label = ''A2'',
      string_frequency = 110, string_midi = 45, string_order = 4\<rparr>,
     \<lparr>string_id = lowE, string_name = ''Low E'', string_label = ''E2'',
      string_frequency = 8241 / 100, string_midi = 40, string_order = 5\<rparr>]"

text \<open>\<open>GUITAR_STRINGS[i]\<close>: \<open>None\<close> is \<open>undefined\<close>.\<close>

definition GUITAR_STRINGS_at :: "int \<Rightarrow> GuitarStringDefinition option" where
  "GUITAR_STRINGS_at i =
     (if 0 \<le> i \<and> i < int (length GUITAR_STRINGS) then Some (GUITAR_STRINGS ! nat i) else None)"

section \<open>Fretboard mapper\<close>

definition STRING_SPACING_PX :: real where "STRING_SPACING_PX = 40"
definition STRING_TOP_OFFSET_PX :: real where "STRING_TOP_OFFSET_PX = 40"

definition FRETBOARD_START_RATIO :: real where "FRETBOARD_START_RATIO = 1 / 10"
definition FRETBOARD_END_RATIO :: real where "FRETBOARD_END_RATIO = 9 / 10"
definition MAX_FRET :: int where "MAX_FRET = 12"
definition FRETBOARD_SPAN :: real where
  "FRETBOARD_SPAN = FRETBOARD_END_RATIO - FRETBOARD_START_RATIO"

text \<open>The argument is \<open>None\<close> when \<open>relativeX\<close> is \<open>undefined\<close> or \<open>null\<close>.\<close>

definition computeFretFromRelativeX :: "real number option \<Rightarrow> int" where
  "computeFretFromRelativeX relativeX =
     (case relativeX of
        None \<Rightarrow> 0
      | Some NaN \<Rightarrow> 0
      | Some (Val x) \<Rightarrow>
          if FRETBOARD_SPAN \<le> 0 then 0
          else
            let normalized = clamp01 (Val ((x - FRETBOARD_START_RATIO) / FRETBOARD_SPAN));
                fret = lift1 (\<lambda>n. Math_round (n * real_of_int MAX_FRET)) normalized
            in clamp fret 0 MAX_FRET)"

definition findStringIndexFromY :: "real number \<Rightarrow> int" where
  "findStringIndexFromY y =
     (let relative = lift1 (\<lambda>v. (v - STRING_TOP_OFFSET_PX) / STRING_SPACING_PX) y;
          rounded = lift1 Math_round relative
      in clamp rounded 0 (int (length GUITAR_STRINGS) - 1))"

section \<open>Gesture classifier\<close>

type_synonym NormalizedPosition = "real number \<times> real number"

datatype StrumDirection = Up | Down

datatype SlideDirection = Left | Right

text \<open>
  \<open>RecognizedGesture\<close>: a tap carries its position, duration and optional relative
  position; a strum and a slide carry direction, distance, speed and the optional relative
  position; an unknown gesture carries its detail text.
\<close>

datatype RecognizedGesture =
    Tap "real number \<times> real number" "real number" "NormalizedPosition option"
  | Strum StrumDirection "real number" "real number" "NormalizedPosition option"
  | Slide SlideDirection "real number" "real number" "NormalizedPosition option"
  | Unknown string

definition TAP_DURATION_MS :: real where "TAP_DURATION_MS = 200"
definition TAP_MOVEMENT_PX :: real where "TAP_MOVEMENT_PX = 12"
definition MIN_STRUM_DISTANCE :: real where "MIN_STRUM_DISTANCE = 120"
definition MIN_SLIDE_DISTANCE :: real where "MIN_SLIDE_DISTANCE = 80"

record PanResponderGestureState =
  gs_dx :: "real number"
  gs_dy :: "real number"
  gs_vx :: "real number"
  gs_vy :: "real number"

record NativeEvent =
  locationX :: "real number"
  locationY :: "real number"

record LayoutRectangle =
  layout_width :: "real number"
  layout_height :: "real number"

definition getRelativePosition ::
  "NativeEvent \<Rightarrow> LayoutRectangle option \<Rightarrow> NormalizedPosition option" where
  "getRelativePosition event layout =
     (case layout of
        None \<Rightarrow> None
      | Some l \<Rightarrow>
          if num_le (layout_width l) (Val 0) \<or> num_le (layout_height l) (Val 0) then None
          else Some (clamp01 (lift2 (/) (locationX event) (layout_width l)),
                     clamp01 (lift2 (/) (locationY event) (layout_height l))))"

text \<open>
  \<open>handleInterpretation\<close>: \<open>now\<close> is the value of \<open>Date.now()\<close>. The result is what
  the optional callback \<open>onGesture\<close> returns on the classified gesture, \<open>None\<close> when
  there is no callback.
\<close>

definition handleInterpretation ::
  "(RecognizedGesture \<Rightarrow> 'r) option \<Rightarrow> real \<Rightarrow> real \<Rightarrow> PanResponderGestureState \<Rightarrow>
   NativeEvent \<Rightarrow> LayoutRectangle option \<Rightarrow> 'r option" where
  "handleInterpretation onGesture now startTime gestureState event layout =
     (let duration = now - startTime;
          absDx = lift1 abs (gs_dx gestureState);
          absDy = lift1 abs (gs_dy gestureState);
          relativePosition = getRelativePosition event layout
      in if duration \<le> TAP_DURATION_MS \<and> num_le absDx (Val TAP_MOVEMENT_PX)
            \<and> num_le absDy (Val TAP_MOVEMENT_PX)
         then map_option (\<lambda>cb. cb (Tap (locationX event, locationY event) (Val duration)
                                       relativePosition)) onGesture
         else if num_less absDx absDy \<and> num_le (Val MIN_STRUM_DISTANCE) absDy
         then map_option (\<lambda>cb. cb (Strum (if num_less (Val 0) (gs_dy gestureState) then Down else Up)
                                       absDy (lift1 abs (gs_vy gestureState)) relativePosition))
                onGesture
         else if num_le (Val MIN_SLIDE_DISTANCE) absDx
         then map_option (\<lambda>cb. cb (Slide (if num_less (Val 0) (gs_dx gestureState) then Right else Left)
                                       absDx (lift1 abs (gs_vx gestureState)) relativePosition))
                onGesture
         else map_option (\<lambda>cb. cb (Unknown ''No matching gesture pattern detected'')) onGesture)"

text \<open>
  The three positive criteria of the classifier as the specification words them, on the
  duration and the net displacement of a completed interaction.
\<close>

definition tap_criteria :: "real \<Rightarrow> real number \<Rightarrow> real number \<Rightarrow> bool" where
  "tap_criteria duration ddx ddy \<longleftrightarrow>
     duration \<le> TAP_DURATION_MS \<and> num_le (lift1 abs ddx) (Val TAP_MOVEMENT_PX)
     \<and> num_le (lift1 abs ddy) (Val TAP_MOVEMENT_PX)"

definition strum_criteria :: "real number \<Rightarrow> real number \<Rightarrow> bool" where
  "strum_criteria ddx ddy \<longleftrightarrow>
     num_less (lift1 abs ddx) (lift1 abs ddy) \<and> num_le (Val MIN_STRUM_DISTANCE) (lift1 abs ddy)"

definition slide_criteria :: "real number \<Rightarrow> bool" where
  "slide_criteria ddx \<longleftrightarrow> num_le (Val MIN_SLIDE_DISTANCE) (lift1 abs ddx)"

section \<open>Musical mapping engine\<close>

definition NOTE_NAMES :: "string list" where
  "NOTE_NAMES = [''C'', ''C#'', ''D'', ''D#'', ''E'', ''F'', ''F#'', ''G'', ''G#'', ''A'', ''A#'', ''B'']"

definition NOTE_NAMES_at :: "int \<Rightarrow> string option" where
  "NOTE_NAMES_at i =
     (if 0 \<le> i \<and> i < int (length NOTE_NAMES) then Some (NOTE_NAMES ! nat i) else None)"

text \<open>The remainder operator \<open>%\<close> on integers: the sign follows the dividend.\<close>

definition js_rem :: "int \<Rightarrow> int \<Rightarrow> int" where
  "js_rem a b = sgn a * (\<bar>a\<bar> mod \<bar>b\<bar>)"

text \<open>The decimal text of an integer, as a template literal prints it.\<close>

fun digits :: "nat \<Rightarrow> string" where
  "digits n =
     (if n < 10 then [''0123456789'' ! n]
      else digits (n div 10) @ [''0123456789'' ! (n mod 10)])"

declare digits.simps [simp del]

definition show_int :: "int \<Rightarrow> string" where
  "show_int i = (if i < 0 then CHR ''-'' # digits (nat (- i)) else digits (nat i))"

definition midiToFrequency :: "int \<Rightarrow> real" where
  "midiToFrequency midi = 440 * 2 powr ((real_of_int midi - 69) / 12)"

definition midiToNoteLabel :: "int \<Rightarrow> string" where
  "midiToNoteLabel midi =
     (let noteIndex = js_rem (js_rem midi 12 + 12) 12;
          octave = midi div 12 - 1
      in (case NOTE_NAMES_at noteIndex of Some n \<Rightarrow> n | None \<Rightarrow> ''undefined'') @ show_int octave)"

datatype Articulation = tap_articulation | slide_articulation

record GuitarPitchSnapshot =
  pitch_string :: GuitarStringDefinition
  pitch_articulation :: Articulation
  pitch_durationMs :: "real number option"
  pitch_fret :: int
  pitch_midi :: int
  pitch_label :: string
  pitch_frequency :: real

definition createPitchSnapshot ::
  "GuitarStringDefinition \<Rightarrow> int \<Rightarrow> Articulation \<Rightarrow> real number option \<Rightarrow> GuitarPitchSnapshot" where
  "createPitchSnapshot stringDef fret articulation durationMs =
     (let clampedFret = clamp (Val fret) 0 MAX_FRET;
          midi = string_midi stringDef + clampedFret
      in \<lparr>pitch_string = stringDef, pitch_articulation = articulation,
          pitch_durationMs = durationMs, pitch_fret = clampedFret, pitch_midi = midi,
          pitch_label = midiToNoteLabel midi, pitch_frequency = midiToFrequency midi\<rparr>)"

definition computeSlideTargetFret :: "int \<Rightarrow> SlideDirection \<Rightarrow> real number \<Rightarrow> int" where
  "computeSlideTargetFret startFret direction distance =
     (let semitoneDelta = max 1 (Math_round (mapDistanceToSlideSemitones distance));
          delta = (if direction = Right then semitoneDelta else - semitoneDelta)
      in clamp (Val (startFret + delta)) 0 MAX_FRET)"

section \<open>Chord recognizer\<close>

definition getPitchClass :: "int \<Rightarrow> int" where
  "getPitchClass midi = js_rem (js_rem midi 12 + 12) 12"

datatype Quality = major | minor

record TriadPattern =
  pattern_quality :: Quality
  pattern_intervals :: "int list"

definition TRIAD_PATTERNS :: "TriadPattern list" where
  "TRIAD_PATTERNS =
     [\<lparr>pattern_quality = major, pattern_intervals = [0, 4, 7]\<rparr>,
      \<lparr>pattern_quality = minor, pattern_intervals = [0, 3, 7]\<rparr>]"

record DetectedChord =
  chord_root :: string
  chord_quality :: Quality
  chord_notes :: "string option list"
  chord_intervals :: "int list"
  chord_label :: string

text \<open>
  \<open>Array.from(new Set(xs))\<close>: the elements of \<open>xs\<close> in the order of their first
  occurrence.
\<close>

definition Array_from_Set :: "'a list \<Rightarrow> 'a list" where
  "Array_from_Set xs = fold (\<lambda>x acc. if x \<in> set acc then acc else acc @ [x]) xs []"

text \<open>
  \<open>Array.prototype.sort\<close> with a comparator is stable; for a comparator that orders
  the elements consistently, a stable insertion sort gives the same array.
\<close>

fun insert_by :: "('a \<Rightarrow> 'a \<Rightarrow> int) \<Rightarrow> 'a \<Rightarrow> 'a list \<Rightarrow> 'a list" where
  "insert_by cmp x [] = [x]"
| "insert_by cmp x (y # ys) = (if cmp x y \<le> 0 then x # y # ys else y # insert_by cmp x ys)"

definition sort_by :: "('a \<Rightarrow> 'a \<Rightarrow> int) \<Rightarrow> 'a list \<Rightarrow> 'a list" where
  "sort_by cmp xs = foldr (insert_by cmp) xs []"

record Candidate =
  cand_rootPitchClass :: int
  cand_pattern :: TriadPattern
  cand_intervals :: "int list"

record Scored = Candidate +
  extraCount :: nat

definition quality_text :: "Quality \<Rightarrow> string" where
  "quality_text q = (case q of major \<Rightarrow> ''major'' | minor \<Rightarrow> ''minor'')"

definition compare_scored :: "Scored \<Rightarrow> Scored \<Rightarrow> int" where
  "compare_scored a b =
     (if extraCount a \<noteq> extraCount b then int (extraCount a) - int (extraCount b)
      else if pattern_quality (cand_pattern a) = pattern_quality (cand_pattern b) then 0
      else if pattern_quality (cand_pattern a) = major then - 1 else 1)"

definition fretted_midiValues :: "(GuitarStringId \<rightharpoonup> int) \<Rightarrow> int list" where
  "fretted_midiValues frettedState =
     map (\<lambda>stringDef.
            let fret = clamp (Val (case frettedState (string_id stringDef) of
                                     None \<Rightarrow> 0 | Some f \<Rightarrow> f)) 0 MAX_FRET
            in string_midi stringDef + fret) GUITAR_STRINGS"

definition detectChordFromFrets :: "(GuitarStringId \<rightharpoonup> int) \<Rightarrow> DetectedChord option" where
  "detectChordFromFrets frettedState =
     (let midiValues = fretted_midiValues frettedState;
          pitchClasses = Array_from_Set (map getPitchClass midiValues)
      in if length pitchClasses < 3 then None
         else
           let candidates =
                 concat (map (\<lambda>rootPitchClass.
                   let intervalSet =
                         Array_from_Set (map (\<lambda>pitchClass. js_rem (pitchClass - rootPitchClass + 12) 12)
                                             pitchClasses);
                       intervals = sort_by (\<lambda>a b. a - b) intervalSet
                   in map (\<lambda>pattern. \<lparr>cand_rootPitchClass = rootPitchClass, cand_pattern = pattern,
                                       cand_intervals = intervals\<rparr>)
                        (filter (\<lambda>pattern. list_all (\<lambda>interval. interval \<in> set intervalSet)
                                                     (pattern_intervals pattern))
                                TRIAD_PATTERNS)) pitchClasses)
           in if candidates = [] then None
              else
                let scored =
                      sort_by compare_scored
                        (map (\<lambda>c.
                           let extraIntervals =
                                 filter (\<lambda>interval. interval \<noteq> 0
                                           \<and> interval \<notin> set (pattern_intervals (cand_pattern c)))
                                        (cand_intervals c)
                           in \<lparr>cand_rootPitchClass = cand_rootPitchClass c,
                               cand_pattern = cand_pattern c,
                               cand_intervals = cand_intervals c,
                               extraCount = length extraIntervals\<rparr>) candidates)
                in (case scored of
                      [] \<Rightarrow> None
                    | best # _ \<Rightarrow>
                        let rootName = (case NOTE_NAMES_at (cand_rootPitchClass best) of
                                          Some n \<Rightarrow> n
                                        | None \<Rightarrow> ''Root'' @ show_int (cand_rootPitchClass best));
                            noteNames = map (\<lambda>interval.
                                               NOTE_NAMES_at (js_rem (cand_rootPitchClass best + interval) 12))
                                            (cand_intervals best);
                            label = rootName @ '' '' @ quality_text (pattern_quality (cand_pattern best))
                        in Some \<lparr>chord_root = rootName,
                                 chord_quality = pattern_quality (cand_pattern best),
                                 chord_notes = noteNames,
                                 chord_intervals = cand_intervals best,
                                 chord_label = label\<rparr>))"

text \<open>The two fretted states of the recognizer's tests.\<close>

definition g_major_frets :: "GuitarStringId \<rightharpoonup> int" where
  "g_major_frets =
     [highE \<mapsto> 3, Bstring \<mapsto> 0, Gstring \<mapsto> 0, Dstring \<mapsto> 0, Astring \<mapsto> 2, lowE \<mapsto> 3]"

definition e_minor_frets :: "GuitarStringId \<rightharpoonup> int" where
  "e_minor_frets =
     [highE \<mapsto> 0, Bstring \<mapsto> 0, Gstring \<mapsto> 0, Dstring \<mapsto> 2, Astring \<mapsto> 2, lowE \<mapsto> 0]"

section \<open>Synthesis dispatcher\<close>

text \<open>
  The tone device is an \<open>AudioContextLike\<close>: whether it is suspended and can be
  resumed, its clock, and which of the optional scheduling methods its oscillators and
  gains have. The clock and the capabilities are read as constant during one handler.
\<close>

record AudioContextLike =
  ctx_suspended :: bool
  ctx_has_resume :: bool
  currentTime :: real
  osc_has_setValueAtTime :: bool
  osc_has_linearRamp :: bool
  gain_has_linearRamp :: bool
  gain_has_exponentialRamp :: bool

text \<open>The calls made on the device, in the order the engine makes them.\<close>

datatype DeviceCall =
    Resume
  | CreateOscillator
  | CreateGain
  | ConnectOscillatorToGain
  | ConnectGainToDestination
  | FrequencySetValueAtTime real real
  | FrequencyAssign real
  | FrequencyLinearRamp real real
  | GainSetValueAtTime real real
  | GainLinearRamp real real
  | GainExponentialRamp real real
  | OscillatorStart real
  | OscillatorStop real

definition ensureContextReady :: "AudioContextLike \<Rightarrow> DeviceCall list" where
  "ensureContextReady ctx = (if ctx_suspended ctx \<and> ctx_has_resume ctx then [Resume] else [])"

definition playFrequency ::
  "AudioContextLike option \<Rightarrow> real \<Rightarrow> real \<Rightarrow> real \<Rightarrow> real \<Rightarrow> DeviceCall list" where
  "playFrequency context frequency durationSeconds velocity startDelaySeconds =
     (case context of
        None \<Rightarrow> []
      | Some ctx \<Rightarrow>
          let startTime = currentTime ctx + startDelaySeconds;
              attack = 125 / 10000;
              release = 3 / 10;
              releaseTime = startTime + durationSeconds
          in ensureContextReady ctx
             @ [CreateOscillator, CreateGain, ConnectOscillatorToGain, ConnectGainToDestination]
             @ (if osc_has_setValueAtTime ctx then [FrequencySetValueAtTime frequency startTime]
                else [FrequencyAssign frequency])
             @ [GainSetValueAtTime 0 startTime]
             @ (if gain_has_linearRamp ctx then [GainLinearRamp velocity (startTime + attack)] else [])
             @ (if gain_has_exponentialRamp ctx then [GainExponentialRamp (1 / 10000) releaseTime]
                else if gain_has_linearRamp ctx then [GainLinearRamp 0 releaseTime] else [])
             @ [OscillatorStart startTime, OscillatorStop (releaseTime + release)])"

text \<open>
  In \<open>triggerTap\<close> and \<open>triggerSlide\<close> the index is clamped into the array before the
  lookup.
\<close>

definition triggerTap :: "AudioContextLike option \<Rightarrow> int \<Rightarrow> real number \<Rightarrow> int \<Rightarrow> DeviceCall list" where
  "triggerTap context stringIndex durationMs fret =
     (let clampedIndex = clamp (Val stringIndex) 0 (int (length GUITAR_STRINGS) - 1);
          stringDef = GUITAR_STRINGS ! nat clampedIndex;
          velocity = mapTapDurationToVelocity durationMs;
          frequency = midiToFrequency (string_midi stringDef + clamp (Val fret) 0 MAX_FRET)
      in playFrequency context frequency (45 / 100) velocity 0)"

definition triggerStrum :: "AudioContextLike option \<Rightarrow> StrumDirection \<Rightarrow> real number \<Rightarrow> DeviceCall list" where
  "triggerStrum context direction speed =
     (let orderedStrings = (if direction = Down then GUITAR_STRINGS else rev GUITAR_STRINGS);
          velocity = mapSpeedToVelocity speed;
          spreadSeconds = 25 / 1000
      in concat (map (\<lambda>(index, stringDef).
                        let frequency = midiToFrequency (string_midi stringDef)
                        in playFrequency context frequency (6 / 10) velocity (real index * spreadSeconds))
                     (enumerate 0 orderedStrings)))"

definition triggerSlide ::
  "AudioContextLike option \<Rightarrow> int \<Rightarrow> SlideDirection \<Rightarrow> real number \<Rightarrow> real number \<Rightarrow> int \<Rightarrow>
   DeviceCall list" where
  "triggerSlide context stringIndex direction distance speed startFret =
     (case context of
        None \<Rightarrow> []
      | Some ctx \<Rightarrow>
          let clampedIndex = clamp (Val stringIndex) 0 (int (length GUITAR_STRINGS) - 1);
              baseString = GUITAR_STRINGS ! nat clampedIndex;
              clampedFret = clamp (Val startFret) 0 MAX_FRET;
              velocity = mapSpeedToVelocity speed;
              slideSemitones = mapDistanceToSlideSemitones distance;
              ratio = 2 powr (slideSemitones / 12);
              startFrequency = midiToFrequency (string_midi baseString + clampedFret);
              targetFrequency = (if direction = Right then startFrequency * ratio
                                 else startFrequency / ratio);
              startTime = currentTime ctx;
              sustain = clamp (lift1 (\<lambda>d. d / 180) distance) (3 / 10) 1
          in ensureContextReady ctx
             @ [CreateOscillator, CreateGain, ConnectOscillatorToGain, ConnectGainToDestination]
             @ (if osc_has_setValueAtTime ctx \<and> osc_has_linearRamp ctx
                then [FrequencySetValueAtTime startFrequency startTime,
                      FrequencyLinearRamp targetFrequency (startTime + sustain)]
                else [FrequencyAssign targetFrequency])
             @ [GainSetValueAtTime 0 startTime]
             @ (if gain_has_linearRamp ctx
                then [GainLinearRamp velocity (startTime + 125 / 10000),
                      GainLinearRamp (1 / 10000) (startTime + sustain + 25 / 100)]
                else [])
             @ [OscillatorStart startTime, OscillatorStop (startTime + sustain + 4 / 10)])"

text \<open>The frequency part of a sequence of device calls.\<close>

fun is_frequency_call :: "DeviceCall \<Rightarrow> bool" where
  "is_frequency_call (FrequencySetValueAtTime _ _) = True"
| "is_frequency_call (FrequencyAssign _) = True"
| "is_frequency_call (FrequencyLinearRamp _ _) = True"
| "is_frequency_call _ = False"

fun tone_frequency :: "DeviceCall \<Rightarrow> real option" where
  "tone_frequency (FrequencySetValueAtTime f _) = Some f"
| "tone_frequency (FrequencyAssign f) = Some f"
| "tone_frequency _ = None"

definition tone_frequencies :: "DeviceCall list \<Rightarrow> real list" where
  "tone_frequencies calls = List.map_filter tone_frequency calls"

section \<open>Session engine\<close>

record StrumSnapshot =
  strum_direction :: StrumDirection
  strum_velocity :: real
  strum_strings :: "GuitarStringDefinition list"

record SlideSnapshot =
  slide_direction :: SlideDirection
  slide_velocity :: real
  slide_distance :: "real number"
  slide_string :: GuitarStringDefinition
  slide_startFret :: int
  slide_targetFret :: int

record GuitarEngineStatus =
  lastGesture :: "RecognizedGesture option"
  message :: "string option"
  activeString :: "GuitarPitchSnapshot option"
  strum :: "StrumSnapshot option"
  slide :: "SlideSnapshot option"
  chord :: "DetectedChord option"

record DemoNoteEvent =
  ev_atMs :: real
  ev_stringId :: GuitarStringId
  ev_fret :: int
  ev_durationMs :: real

definition CLASSICAL_DEMO_SEQUENCE :: "DemoNoteEvent list" where
  "CLASSICAL_DEMO_SEQUENCE =
    [\<lparr>ev_atMs = 0, ev_stringId = lowE, ev_fret = 0, ev_durationMs = 460\<rparr>,
     \<lparr>ev_atMs = 260, ev_stringId = Astring, ev_fret = 2, ev_durationMs = 420\<rparr>,
     \<lparr>ev_atMs = 520, ev_stringId = Dstring, ev_fret = 2, ev_durationMs = 420\<rparr>,
     \<lparr>ev_atMs = 780, ev_stringId = Gstring, ev_fret = 0, ev_durationMs = 420\<rparr>,
     \<lparr>ev_atMs = 1040, ev_stringId = Bstring, ev_fret = 0, ev_durationMs = 420\<rparr>,
     \<lparr>ev_atMs = 1300, ev_stringId = highE, ev_fret = 0, ev_durationMs = 460\<rparr>,
     \<lparr>ev_atMs = 1560, ev_stringId = Bstring, ev_fret = 0, ev_durationMs = 420\<rparr>,
     \<lparr>ev_atMs = 1820, ev_stringId = Gstring, ev_fret = 0, ev_durationMs = 420\<rparr>,
     \<lparr>ev_atMs = 2080, ev_stringId = Dstring, ev_fret = 2, ev_durationMs = 420\<rparr>,
     \<lparr>ev_atMs = 2340, ev_stringId = Astring, ev_fret = 2, ev_durationMs = 420\<rparr>,
     \<lparr>ev_atMs = 2600, ev_stringId = lowE, ev_fret = 0, ev_durationMs = 460\<rparr>,
     \<lparr>ev_atMs = 2860, ev_stringId = Bstring, ev_fret = 3, ev_durationMs = 420\<rparr>,
     \<lparr>ev_atMs = 3120, ev_stringId = highE, ev_fret = 0, ev_durationMs = 420\<rparr>,
     \<lparr>ev_atMs = 3380, ev_stringId = Bstring, ev_fret = 2, ev_durationMs = 420\<rparr>,
     \<lparr>ev_atMs = 3640, ev_stringId = highE, ev_fret = 0, ev_durationMs = 420\<rparr>,
     \<lparr>ev_atMs = 3900, ev_stringId = Bstring, ev_fret = 3, ev_durationMs = 420\<rparr>,
     \<lparr>ev_atMs = 4160, ev_stringId = highE, ev_fret = 0, ev_durationMs = 480\<rparr>]"

definition CLASSICAL_DEMO_DURATION_MS :: real where
  "CLASSICAL_DEMO_DURATION_MS =
     foldl (\<lambda>mx event. let e = ev_atMs event + ev_durationMs event in if e > mx then e else mx)
           0 CLASSICAL_DEMO_SEQUENCE"

definition DEMO_COMPLETION_DELAY_MS :: real where "DEMO_COMPLETION_DELAY_MS = 480"

definition CLASSICAL_DEMO_HEADLINE :: string where
  "CLASSICAL_DEMO_HEADLINE = ''Classical demo: Spanish Romance (excerpt)''"

text \<open>
  The headline is a text; the text \<open>formatGestureInternal\<close> gives for a gesture (with
  its \<open>toFixed\<close> number formatting) is kept as the gesture it formats.
\<close>

datatype Headline = HeadlineText string | FormattedGesture RecognizedGesture

text \<open>A pending demo timer: its handle, its delay and the callback it was given.\<close>

datatype DemoCallback = DemoNote DemoNoteEvent | DemoCompletion

record DemoTimeout =
  timeout_id :: nat
  timeout_delayMs :: real
  timeout_callback :: DemoCallback

text \<open>
  Every mutation of the hook's state and every call on the tone device is also entered in
  a journal, in the order in which the code performs it.
\<close>

datatype Effect =
    ClearTimeout nat
  | ResetDemoTimeouts
  | SetTimeout nat
  | RemoveDemoTimeout nat
  | SetIsDemoPlaying bool
  | SetGestureLog
  | SetHeadline
  | SetStatus
  | WriteLastStringIndex
  | WriteLastFret
  | WriteFrettedString GuitarStringId
  | Device DeviceCall

text \<open>
  The state of one \<open>useGuitarEngine\<close> instance: its four React state cells, its refs,
  the configured log limit, and the audio context of its sound engine (\<open>None\<close> when
  \<open>createAudioContext\<close> gives \<open>null\<close>). A handler runs on the committed state: a
  render lies between two events.
\<close>

record Engine =
  logLimit :: nat
  gestureLog :: "RecognizedGesture list"
  headline :: Headline
  status :: GuitarEngineStatus
  isDemoPlaying :: bool
  lastStringIndexRef :: "int option"
  lastFretRef :: int
  frettedStringsRef :: "GuitarStringId \<Rightarrow> int"
  demoTimeoutsRef :: "DemoTimeout list"
  nextTimeoutId :: nat
  audioContext :: "AudioContextLike option"
  journal :: "Effect list"

definition initialEngine :: "nat \<Rightarrow> AudioContextLike option \<Rightarrow> Engine" where
  "initialEngine limit ctx =
     \<lparr>logLimit = limit, gestureLog = [], headline = HeadlineText ''Waiting for gestures...'',
      status = \<lparr>lastGesture = None, message = Some ''Waiting for gestures...'',
                activeString = None, strum = None, slide = None, chord = None\<rparr>,
      isDemoPlaying = False, lastStringIndexRef = None, lastFretRef = 0,
      frettedStringsRef = (\<lambda>_. 0), demoTimeoutsRef = [], nextTimeoutId = 0,
      audioContext = ctx, journal = []\<rparr>"

definition record_effects :: "Effect list \<Rightarrow> Engine \<Rightarrow> Engine" where
  "record_effects es s = s\<lparr>journal := journal s @ es\<rparr>"

definition clearDemoTimeouts :: "Engine \<Rightarrow> Engine" where
  "clearDemoTimeouts s =
     record_effects (map (\<lambda>t. ClearTimeout (timeout_id t)) (demoTimeoutsRef s) @ [ResetDemoTimeouts])
       (s\<lparr>demoTimeoutsRef := []\<rparr>)"

definition scheduleDemoTimeout :: "DemoCallback \<Rightarrow> real \<Rightarrow> Engine \<Rightarrow> Engine" where
  "scheduleDemoTimeout callback delayMs s =
     (let timeoutId = nextTimeoutId s
      in record_effects [SetTimeout timeoutId]
           (s\<lparr>nextTimeoutId := Suc timeoutId,
              demoTimeoutsRef := demoTimeoutsRef s
                 @ [\<lparr>timeout_id = timeoutId, timeout_delayMs = delayMs,
                      timeout_callback = callback\<rparr>]\<rparr>))"

definition setIsDemoPlaying :: "bool \<Rightarrow> Engine \<Rightarrow> Engine" where
  "setIsDemoPlaying b s = record_effects [SetIsDemoPlaying b] (s\<lparr>isDemoPlaying := b\<rparr>)"

definition setHeadline :: "Headline \<Rightarrow> Engine \<Rightarrow> Engine" where
  "setHeadline h s = record_effects [SetHeadline] (s\<lparr>headline := h\<rparr>)"

text \<open>\<open>setStatus\<close> with an updater function; a plain value is the constant updater.\<close>

definition setStatus :: "(GuitarEngineStatus \<Rightarrow> GuitarEngineStatus) \<Rightarrow> Engine \<Rightarrow> Engine" where
  "setStatus f s = record_effects [SetStatus] (s\<lparr>status := f (status s)\<rparr>)"

definition pushGestureToLog :: "RecognizedGesture \<Rightarrow> Engine \<Rightarrow> Engine" where
  "pushGestureToLog gesture s =
     record_effects [SetGestureLog]
       (s\<lparr>gestureLog := (let next = gesture # gestureLog s in take (logLimit s) next)\<rparr>)"

definition touch :: "int \<Rightarrow> GuitarStringDefinition \<Rightarrow> int \<Rightarrow> Engine \<Rightarrow> Engine" where
  \<comment> \<open>the three ref writes shared by the tap, the slide and the demo note\<close>
  "touch stringIndex stringDef fret s =
     record_effects [WriteLastStringIndex, WriteLastFret, WriteFrettedString (string_id stringDef)]
       (s\<lparr>lastStringIndexRef := Some stringIndex, lastFretRef := fret,
          frettedStringsRef := (frettedStringsRef s)(string_id stringDef := fret)\<rparr>)"

definition dispatch :: "DeviceCall list \<Rightarrow> Engine \<Rightarrow> Engine" where
  "dispatch calls s = record_effects (map Device calls) s"

definition captureTap ::
  "real number \<times> real number \<Rightarrow> real number \<Rightarrow> NormalizedPosition option \<Rightarrow> Engine \<Rightarrow> Engine" where
  "captureTap position duration relativePosition s =
     (let gesture = Tap position duration relativePosition;
          stringIndex = findStringIndexFromY (snd position);
          stringDef = GUITAR_STRINGS ! nat stringIndex;
          fret = computeFretFromRelativeX (map_option fst relativePosition);
          snapshot = createPitchSnapshot stringDef fret tap_articulation (Some duration);
          s1 = touch stringIndex stringDef (pitch_fret snapshot) s;
          s2 = setStatus (\<lambda>_. \<lparr>lastGesture = Some gesture,
                                 message = Some (''Trigger '' @ pitch_label snapshot),
                                 activeString = Some snapshot, strum = None, slide = None,
                                 chord = None\<rparr>) s1
      in dispatch (triggerTap (audioContext s2) stringIndex duration (pitch_fret snapshot)) s2)"

definition captureStrum ::
  "StrumDirection \<Rightarrow> real number \<Rightarrow> real number \<Rightarrow> NormalizedPosition option \<Rightarrow> Engine \<Rightarrow> Engine" where
  "captureStrum direction distance speed relativePosition s =
     (let gesture = Strum direction distance speed relativePosition;
          velocity = mapSpeedToVelocity speed;
          strings = GUITAR_STRINGS;
          s1 = record_effects [WriteLastStringIndex, WriteLastFret]
                 (s\<lparr>lastStringIndexRef :=
                       Some (if direction = Down then int (length GUITAR_STRINGS) - 1 else 0),
                    lastFretRef := 0\<rparr>);
          detected = detectChordFromFrets (\<lambda>i. Some (frettedStringsRef s1 i));
          s2 = setStatus (\<lambda>_. \<lparr>lastGesture = Some gesture,
                                 message = Some (case detected of
                                     Some c \<Rightarrow> ''Detected '' @ chord_label c @ '' chord''
                                   | None \<Rightarrow> (if direction = Down then ''Downward'' else ''Upward'')
                                              @ '' strum''),
                                 activeString = None,
                                 strum = Some \<lparr>strum_direction = direction, strum_velocity = velocity,
                                               strum_strings = strings\<rparr>,
                                 slide = None, chord = detected\<rparr>) s1
      in dispatch (triggerStrum (audioContext s2) direction speed) s2)"

text \<open>
  \<open>captureSlide\<close> reads \<open>GUITAR_STRINGS\<close> at the remembered index without a clamp;
  an index outside the array gives \<open>undefined\<close>, and reading its \<open>midi\<close> throws.
\<close>

datatype error = TypeError

definition captureSlide ::
  "SlideDirection \<Rightarrow> real number \<Rightarrow> real number \<Rightarrow> NormalizedPosition option \<Rightarrow> Engine \<Rightarrow>
   error + Engine" where
  "captureSlide direction distance speed relativePosition s =
     (let gesture = Slide direction distance speed relativePosition;
          stringIndex = (case lastStringIndexRef s of
                           Some i \<Rightarrow> i | None \<Rightarrow> int (length GUITAR_STRINGS) div 2)
      in case GUITAR_STRINGS_at stringIndex of
           None \<Rightarrow> Inl TypeError
         | Some stringDef \<Rightarrow>
             let velocity = mapSpeedToVelocity speed;
                 startFret = lastFretRef s;
                 targetFret = computeSlideTargetFret startFret direction distance;
                 snapshot = createPitchSnapshot stringDef targetFret slide_articulation None;
                 s1 = touch stringIndex stringDef (pitch_fret snapshot) s;
                 s2 = setStatus (\<lambda>_. \<lparr>lastGesture = Some gesture,
                         message = Some ((if direction = Right then ''Forward'' else ''Backward'')
                                         @ '' slide to '' @ pitch_label snapshot),
                         activeString = Some snapshot, strum = None,
                         slide = Some \<lparr>slide_direction = direction, slide_velocity = velocity,
                                       slide_distance = distance, slide_string = stringDef,
                                       slide_startFret = startFret, slide_targetFret = targetFret\<rparr>,
                         chord = None\<rparr>) s1
             in Inr (dispatch (triggerSlide (audioContext s2) stringIndex direction distance speed
                                 startFret) s2))"

text \<open>\<open>Array.prototype.findIndex\<close>: the first index whose element satisfies the test, or -1.\<close>

fun findIndex :: "('a \<Rightarrow> bool) \<Rightarrow> 'a list \<Rightarrow> int" where
  "findIndex P [] = - 1"
| "findIndex P (x # xs) =
     (if P x then 0 else (let i = findIndex P xs in if i = - 1 then - 1 else i + 1))"

text \<open>The callback scheduled for one entry of the demo script.\<close>

definition demoNoteCallback :: "DemoNoteEvent \<Rightarrow> Engine \<Rightarrow> Engine" where
  "demoNoteCallback event s =
     (let stringIndex = findIndex (\<lambda>entry. string_id entry = ev_stringId event) GUITAR_STRINGS
      in if stringIndex = - 1 then s
         else
           let stringDef = GUITAR_STRINGS ! nat stringIndex;
               snapshot = createPitchSnapshot stringDef (ev_fret event) tap_articulation
                            (Some (Val (ev_durationMs event)));
               s1 = touch stringIndex stringDef (pitch_fret snapshot) s;
               s2 = setStatus (\<lambda>_. \<lparr>lastGesture = None,
                                      message = Some (''Demo note '' @ pitch_label snapshot),
                                      activeString = Some snapshot, strum = None, slide = None,
                                      chord = None\<rparr>) s1;
               s3 = setHeadline (HeadlineText (''Demo note '' @ pitch_label snapshot)) s2
           in dispatch (triggerTap (audioContext s3) stringIndex (Val (ev_durationMs event))
                          (pitch_fret snapshot)) s3)"

text \<open>The terminal callback of the demo.\<close>

definition demoCompletionCallback :: "Engine \<Rightarrow> Engine" where
  "demoCompletionCallback s =
     (let s1 = setIsDemoPlaying False s;
          s2 = setHeadline (HeadlineText ''Demo complete - try your own gestures'') s1
      in setStatus (\<lambda>current. current\<lparr>message := Some ''Demo complete. Try your own interactions!'',
                                      activeString := None, strum := None, slide := None\<rparr>) s2)"

definition playDemo :: "Engine \<Rightarrow> Engine" where
  "playDemo s =
     (if isDemoPlaying s then s
      else
        let s1 = clearDemoTimeouts s;
            s2 = setIsDemoPlaying True s1;
            s3 = setHeadline (HeadlineText CLASSICAL_DEMO_HEADLINE) s2;
            s4 = setStatus (\<lambda>current. current\<lparr>message := Some ''Playing classical demo...'',
                                             lastGesture := None, activeString := None,
                                             strum := None, slide := None, chord := None\<rparr>) s3;
            s5 = fold (\<lambda>event. scheduleDemoTimeout (DemoNote event) (ev_atMs event))
                      CLASSICAL_DEMO_SEQUENCE s4
        in scheduleDemoTimeout DemoCompletion
             (CLASSICAL_DEMO_DURATION_MS + DEMO_COMPLETION_DELAY_MS) s5)"

text \<open>
  A timer that is still pending fires: it takes its handle out of the list, then runs its
  callback. A handle that is not pending (cleared, or already fired) never fires.
\<close>

definition fireDemoTimeout :: "nat \<Rightarrow> Engine \<Rightarrow> Engine" where
  "fireDemoTimeout timeoutId s =
     (case find (\<lambda>t. timeout_id t = timeoutId) (demoTimeoutsRef s) of
        None \<Rightarrow> s
      | Some t \<Rightarrow>
          let s1 = record_effects [RemoveDemoTimeout timeoutId]
                     (s\<lparr>demoTimeoutsRef :=
                          filter (\<lambda>stored. timeout_id stored \<noteq> timeoutId) (demoTimeoutsRef s)\<rparr>)
          in (case timeout_callback t of
                DemoNote event \<Rightarrow> demoNoteCallback event s1
              | DemoCompletion \<Rightarrow> demoCompletionCallback s1))"

definition handleGesture :: "RecognizedGesture \<Rightarrow> Engine \<Rightarrow> error + Engine" where
  "handleGesture gesture s =
     (let s1 = (if isDemoPlaying s \<or> length (demoTimeoutsRef s) > 0
                then setIsDemoPlaying False (clearDemoTimeouts s) else s);
          s2 = pushGestureToLog gesture s1;
          s3 = setHeadline (FormattedGesture gesture) s2
      in case gesture of
           Tap position duration relativePosition \<Rightarrow>
             Inr (captureTap position duration relativePosition s3)
         | Strum direction distance speed relativePosition \<Rightarrow>
             Inr (captureStrum direction distance speed relativePosition s3)
         | Slide direction distance speed relativePosition \<Rightarrow>
             captureSlide direction distance speed relativePosition s3
         | Unknown detail \<Rightarrow>
             Inr (setStatus (\<lambda>current. current\<lparr>lastGesture := Some gesture, message := Some detail,
                                               activeString := None, strum := None, slide := None,
                                               chord := None\<rparr>) s3))"

text \<open>What a handler added to the journal, and the device calls among it.\<close>

definition new_effects :: "Engine \<Rightarrow> Engine \<Rightarrow> Effect list" where
  "new_effects s s' = drop (length (journal s)) (journal s')"

fun device_call_of :: "Effect \<Rightarrow> DeviceCall option" where
  "device_call_of (Device c) = Some c"
| "device_call_of _ = None"

definition device_calls :: "Effect list \<Rightarrow> DeviceCall list" where
  "device_calls es = List.map_filter device_call_of es"

text \<open>The remembered string index is absent or an index of \<open>GUITAR_STRINGS\<close>.\<close>

definition index_ok :: "Engine \<Rightarrow> bool" where
  "index_ok s \<longleftrightarrow>
     (case lastStringIndexRef s of None \<Rightarrow> True | Some i \<Rightarrow> 0 \<le> i \<and> i < int (length GUITAR_STRINGS))"

section \<open>Sample inputs and auxiliary notions\<close>

text \<open>A fretted state in which every string sounds an E.\<close>

definition all_e_frets :: "GuitarStringId \<rightharpoonup> int" where
  "all_e_frets =
     [highE \<mapsto> 0, Bstring \<mapsto> 5, Gstring \<mapsto> 9, Dstring \<mapsto> 2, Astring \<mapsto> 7, lowE \<mapsto> 0]"

text \<open>
  The state in which \<open>handleGesture\<close> runs the gesture's own handler: after the demo
  has been interrupted, the gesture logged and the headline set.
\<close>

definition prepared :: "RecognizedGesture \<Rightarrow> Engine \<Rightarrow> Engine" where
  "prepared gesture s =
     setHeadline (FormattedGesture gesture)
       (pushGestureToLog gesture
          (if isDemoPlaying s \<or> length (demoTimeoutsRef s) > 0
           then setIsDemoPlaying False (clearDemoTimeouts s) else s))"

text \<open>A run of gestures, stopping at the first error.\<close>

fun run_gestures :: "RecognizedGesture list \<Rightarrow> Engine \<Rightarrow> error + Engine" where
  "run_gestures [] s = Inr s"
| "run_gestures (g # gs) s =
     (case handleGesture g s of Inl e \<Rightarrow> Inl e | Inr s' \<Rightarrow> run_gestures gs s')"

definition last_touched :: "Engine \<Rightarrow> int option \<times> int" where
  "last_touched s = (lastStringIndexRef s, lastFretRef s)"

text \<open>Sample gestures and a sample device.\<close>

definition sample_tap :: RecognizedGesture where
  "sample_tap = Tap (Val 100, Val 120) (Val 100) (Some (Val (5 / 10), Val (5 / 10)))"

definition sample_strum :: RecognizedGesture where
  "sample_strum = Strum Down (Val 180) (Val (14 / 10)) None"

definition sample_slide :: RecognizedGesture where
  "sample_slide = Slide Right (Val 100) (Val 1) None"

definition sample_context :: AudioContextLike where
  "sample_context =
     \<lparr>ctx_suspended = False, ctx_has_resume = True, currentTime = 0,
      osc_has_setValueAtTime = True, osc_has_linearRamp = True,
      gain_has_linearRamp = True, gain_has_exponentialRamp = True\<rparr>"

text \<open>Which of \<open>activeString\<close>, \<open>strum\<close> and \<open>slide\<close> a status populates.\<close>

definition populated :: "GuitarEngineStatus \<Rightarrow> bool \<times> bool \<times> bool" where
  "populated st = (activeString st \<noteq> None, strum st \<noteq> None, slide st \<noteq> None)"

text \<open>The first entry of the demo script, and a tap on its string and fret.\<close>

definition first_demo_event :: DemoNoteEvent where
  "first_demo_event = \<lparr>ev_atMs = 0, ev_stringId = lowE, ev_fret = 0, ev_durationMs = 460\<rparr>"

definition first_demo_tap :: RecognizedGesture where
  "first_demo_tap = Tap (Val 0, Val 240) (Val 460) (Some (Val (1 / 10), Val 0))"

text \<open>
  A tap at the twelfth fret of the high E string, and the engine (with a device) after it.
\<close>

definition fret12_tap :: RecognizedGesture where
  "fret12_tap = Tap (Val 300, Val 40) (Val 100) (Some (Val (95 / 100), Val (1 / 10)))"

definition fret12_engine :: Engine where
  "fret12_engine =
     captureTap (Val 300, Val 40) (Val 100) (Some (Val (95 / 100), Val (1 / 10)))
       (prepared fret12_tap (initialEngine 5 (Some sample_context)))"

text \<open>
  What is observed of a slide: the frequency calls a handler made on the device, and the
  fret and frequency of the active pitch it left in the status.
\<close>

definition frequency_schedule :: "Engine \<Rightarrow> Engine \<Rightarrow> DeviceCall list" where
  "frequency_schedule s s' = filter is_frequency_call (device_calls (new_effects s s'))"

definition active_pitch :: "Engine \<Rightarrow> (int \<times> real) option" where
  "active_pitch s = map_option (\<lambda>p. (pitch_fret p, pitch_frequency p)) (activeString (status s))"

text \<open>The index of a demo entry's string, as the demo callback finds it.\<close>

definition demo_string_index :: "DemoNoteEvent \<Rightarrow> int" where
  "demo_string_index event =
     findIndex (\<lambda>entry. string_id entry = ev_stringId event) GUITAR_STRINGS"

text \<open>Whether the demo is marked active, and how many demo timers are pending.\<close>

definition demo_pending :: "Engine \<Rightarrow> bool \<times> nat" where
  "demo_pending s = (isDemoPlaying s, length (demoTimeoutsRef s))"

text \<open>
  The states an engine reaches: from an initial state by handled gestures, demo starts
  and firing timers.
\<close>

inductive reachable :: "Engine \<Rightarrow> bool" where
  reachable_initial: "reachable (initialEngine limit ctx)"
| reachable_gesture: "reachable s \<Longrightarrow> handleGesture g s = Inr s' \<Longrightarrow> reachable s'"
| reachable_playDemo: "reachable s \<Longrightarrow> reachable (playDemo s)"
| reachable_timeout: "reachable s \<Longrightarrow> reachable (fireDemoTimeout tid s)"

text \<open>The status a demo start and the terminal demo tick write.\<close>

definition demo_start_status :: GuitarEngineStatus where
  "demo_start_status =
     \<lparr>lastGesture = None, message = Some ''Playing classical demo...'', activeString = None,
      strum = None, slide = None, chord = None\<rparr>"

definition demo_complete_status :: GuitarEngineStatus where
  "demo_complete_status =
     \<lparr>lastGesture = None, message = Some ''Demo complete. Try your own interactions!'',
      activeString = None, strum = None, slide = None, chord = None\<rparr>"

text \<open>A long slide to the left and a short slide to the right.\<close>

definition sample_slide_left :: RecognizedGesture where
  "sample_slide_left = Slide Left (Val 200) (Val 1) None"

definition sample_slide_short :: RecognizedGesture where
  "sample_slide_short = Slide Right (Val 40) (Val 1) None"

section \<open>Properties of the fretboard mapper and the velocity curve\<close>

lemmas fret_defs = computeFretFromRelativeX_def FRETBOARD_SPAN_def FRETBOARD_START_RATIO_def
  FRETBOARD_END_RATIO_def MAX_FRET_def clamp01_def Math_max_def Math_min_def Math_round_def

lemma computeFret_Val:
  "computeFretFromRelativeX (Some (Val x)) =
     min 12 (max 0 \<lfloor>max 0 (min 1 ((x - 1 / 10) / (8 / 10))) * 12 + 1 / 2\<rfloor>)"
  by (simp add: fret_defs)

lemma computeFret_mono:
  assumes "x \<le> y"
  shows "computeFretFromRelativeX (Some (Val x)) \<le> computeFretFromRelativeX (Some (Val y))"
proof -
  have "(x - 1 / 10) / (8 / 10) \<le> (y - 1 / 10) / (8 / 10)"
    using assms by simp
  then have "max 0 (min 1 ((x - 1 / 10) / (8 / 10))) \<le> max 0 (min 1 ((y - 1 / 10) / (8 / 10)))"
    by (intro max.mono min.mono order_refl)
  then have "\<lfloor>max 0 (min 1 ((x - 1 / 10) / (8 / 10))) * 12 + 1 / 2\<rfloor>
      \<le> \<lfloor>max 0 (min 1 ((y - 1 / 10) / (8 / 10))) * 12 + 1 / 2\<rfloor>"
    by (intro floor_mono) simp
  then show ?thesis
    unfolding computeFret_Val by (intro max.mono min.mono order_refl)
qed

lemma computeFret_range:
  "0 \<le> computeFretFromRelativeX r \<and> computeFretFromRelativeX r \<le> 12"
proof (cases r)
  case None
  then show ?thesis by (simp add: computeFretFromRelativeX_def)
next
  case (Some n)
  then show ?thesis
    by (cases n) (simp_all add: computeFret_Val, simp add: computeFretFromRelativeX_def)
qed

text \<open>
  C9. The fret mapping is monotonic non-decreasing in the normalized x on [0.1, 0.9], is 0
  for every input below 0.1 and 12 for every input above 0.9, maps 0.1 to fret 0, 0.5 to
  fret 6 and 0.92 to fret 12, and gives fret 0 for an absent and for a NaN input.
\<close>

theorem computeFretFromRelativeX_mapping:
  "(1 / 10 \<le> x \<and> x \<le> y \<and> y \<le> 9 / 10 \<longrightarrow>
      computeFretFromRelativeX (Some (Val x)) \<le> computeFretFromRelativeX (Some (Val y)))
   \<and> (z < 1 / 10 \<longrightarrow> computeFretFromRelativeX (Some (Val z)) = 0)
   \<and> (9 / 10 < w \<longrightarrow> computeFretFromRelativeX (Some (Val w)) = 12)
   \<and> computeFretFromRelativeX (Some (Val (1 / 10))) = 0
   \<and> computeFretFromRelativeX (Some (Val (5 / 10))) = 6
   \<and> computeFretFromRelativeX (Some (Val (92 / 100))) = 12
   \<and> computeFretFromRelativeX None = 0
   \<and> computeFretFromRelativeX (Some NaN) = 0"
proof (intro conjI impI)
  assume "1 / 10 \<le> x \<and> x \<le> y \<and> y \<le> 9 / 10"
  then show "computeFretFromRelativeX (Some (Val x)) \<le> computeFretFromRelativeX (Some (Val y))"
    by (simp add: computeFret_mono)
next
  assume "z < 1 / 10"
  then have "(z - 1 / 10) / (8 / 10) < 0" by simp
  then have "max 0 (min 1 ((z - 1 / 10) / (8 / 10))) = 0" by simp
  then show "computeFretFromRelativeX (Some (Val z)) = 0"
    unfolding computeFret_Val by simp
next
  assume "9 / 10 < w"
  then have "1 < (w - 1 / 10) / (8 / 10)" by simp
  then have "max 0 (min 1 ((w - 1 / 10) / (8 / 10))) = 1" by simp
  then show "computeFretFromRelativeX (Some (Val w)) = 12"
    unfolding computeFret_Val by simp
qed (simp_all add: fret_defs)

theorem computeFretFromRelativeX_mapping_witness:
  "((1::real) / 10 \<le> 2 / 10 \<and> (2::real) / 10 \<le> 7 / 10 \<and> (7::real) / 10 \<le> 9 / 10)
   \<and> computeFretFromRelativeX (Some (Val (2 / 10))) \<le> computeFretFromRelativeX (Some (Val (7 / 10)))
   \<and> (5::real) / 100 < 1 / 10 \<and> computeFretFromRelativeX (Some (Val (5 / 100))) = 0
   \<and> (9::real) / 10 < 95 / 100 \<and> computeFretFromRelativeX (Some (Val (95 / 100))) = 12"
  using computeFretFromRelativeX_mapping [of "2 / 10" "7 / 10" "5 / 100" "95 / 100"]
  by simp

text \<open>
  C6, as stated, fails: at speed 1.25 the velocity is 0.75, not 1, and between the speeds
  0.1 and 0.2 the velocity does not increase (both give the floor 0.25).
\<close>

theorem mapSpeedToVelocity_counterexample:
  "mapSpeedToVelocity (Val (125 / 100)) \<noteq> 1
   \<and> \<not> mapSpeedToVelocity (Val (1 / 10)) < mapSpeedToVelocity (Val (2 / 10))"
  by (simp add: mapSpeedToVelocity_def)

text \<open>
  C6, amended. \<open>mapSpeedToVelocity\<close> returns 0.25 for speed 0, returns 1 for every speed
  greater than or equal to 5/3 (saturation), and is strictly increasing for speeds between
  5/12 and 5/3, the two points where \<open>0.6 \<times> speed\<close> meets the bounds 0.25 and 1.
\<close>

theorem mapSpeedToVelocity_curve:
  "mapSpeedToVelocity (Val 0) = 25 / 100
   \<and> (5 / 3 \<le> s \<longrightarrow> mapSpeedToVelocity (Val s) = 1)
   \<and> (5 / 12 \<le> a \<and> a < b \<and> b \<le> 5 / 3 \<longrightarrow>
        mapSpeedToVelocity (Val a) < mapSpeedToVelocity (Val b))"
  by (auto simp add: mapSpeedToVelocity_def min_def max_def)

theorem mapSpeedToVelocity_curve_witness:
  "(5::real) / 3 \<le> 2 \<and> mapSpeedToVelocity (Val 2) = 1
   \<and> ((5::real) / 12 \<le> 1 / 2 \<and> (1::real) / 2 < 5 / 4 \<and> (5::real) / 4 \<le> 5 / 3)
   \<and> mapSpeedToVelocity (Val (1 / 2)) < mapSpeedToVelocity (Val (5 / 4))"
  using mapSpeedToVelocity_curve [of 2 "1 / 2" "5 / 4"] by simp

section \<open>Properties of the gesture classifier\<close>

text \<open>
  C8. A completed interaction whose duration is at most the tap threshold and whose
  \<open>|dx|\<close> and \<open>|dy|\<close> are within the movement tolerance is classified as a tap (of
  the end position, the duration and the relative position); an interaction that fails
  the tap criteria, the strum criteria and the slide criterion is classified as unknown.
\<close>

theorem handleInterpretation_classification:
  "(tap_criteria (now - startTime) (gs_dx gestureState) (gs_dy gestureState) \<longrightarrow>
      handleInterpretation (Some cb) now startTime gestureState event layout
        = Some (cb (Tap (locationX event, locationY event) (Val (now - startTime))
                        (getRelativePosition event layout))))
   \<and> (\<not> tap_criteria (now - startTime) (gs_dx gestureState) (gs_dy gestureState)
      \<and> \<not> strum_criteria (gs_dx gestureState) (gs_dy gestureState)
      \<and> \<not> slide_criteria (gs_dx gestureState) \<longrightarrow>
      handleInterpretation (Some cb) now startTime gestureState event layout
        = Some (cb (Unknown ''No matching gesture pattern detected'')))"
  unfolding tap_criteria_def strum_criteria_def slide_criteria_def handleInterpretation_def
    TAP_DURATION_MS_def TAP_MOVEMENT_PX_def MIN_STRUM_DISTANCE_def MIN_SLIDE_DISTANCE_def Let_def
  by (cases "tap_criteria (now - startTime) (gs_dx gestureState) (gs_dy gestureState)") auto

theorem handleInterpretation_classification_witness:
  "tap_criteria (1120 - 1000) (Val 4) (Val 6)
   \<and> handleInterpretation (Some (\<lambda>g. g)) 1120 1000
             \<lparr>gs_dx = Val 4, gs_dy = Val 6, gs_vx = Val 0, gs_vy = Val 0\<rparr>
             \<lparr>locationX = Val 42, locationY = Val 128\<rparr> None
       = Some (Tap (Val 42, Val 128) (Val 120) None)
   \<and> \<not> tap_criteria (1600 - 1000) (Val 30) (Val 40)
   \<and> \<not> strum_criteria (Val 30) (Val 40) \<and> \<not> slide_criteria (Val 30)
   \<and> handleInterpretation (Some (\<lambda>g. g)) 1600 1000
             \<lparr>gs_dx = Val 30, gs_dy = Val 40, gs_vx = Val 0, gs_vy = Val 0\<rparr>
             \<lparr>locationX = Val 42, locationY = Val 128\<rparr> None
       = Some (Unknown ''No matching gesture pattern detected'')"
  using handleInterpretation_classification [of 1120 1000
             "\<lparr>gs_dx = Val 4, gs_dy = Val 6, gs_vx = Val 0, gs_vy = Val 0\<rparr>" "\<lambda>g. g"
             "\<lparr>locationX = Val 42, locationY = Val 128\<rparr>" None]
    handleInterpretation_classification [of 1600 1000
             "\<lparr>gs_dx = Val 30, gs_dy = Val 40, gs_vx = Val 0, gs_vy = Val 0\<rparr>" "\<lambda>g. g"
             "\<lparr>locationX = Val 42, locationY = Val 128\<rparr>" None]
  by (simp add: tap_criteria_def strum_criteria_def slide_criteria_def getRelativePosition_def
      TAP_DURATION_MS_def TAP_MOVEMENT_PX_def MIN_STRUM_DISTANCE_def MIN_SLIDE_DISTANCE_def)

section \<open>Properties of the chord recognizer\<close>

lemma Array_from_Set_aux:
  "distinct acc \<Longrightarrow>
   distinct (fold (\<lambda>x acc. if x \<in> set acc then acc else acc @ [x]) xs acc)
   \<and> set (fold (\<lambda>x acc. if x \<in> set acc then acc else acc @ [x]) xs acc) = set acc \<union> set xs"
  by (induction xs arbitrary: acc) auto

lemma length_Array_from_Set: "length (Array_from_Set xs) = card (set xs)"
  using Array_from_Set_aux [of "[]" xs] distinct_card [of "Array_from_Set xs"]
  by (simp add: Array_from_Set_def)

lemma all_e_pitch_classes:
  "map getPitchClass (fretted_midiValues all_e_frets) = [4, 4, 4, 4, 4, 4]"
  by code_simp

text \<open>
  C3. The recognizer maps the frets \<open>{highE:3, B:0, G:0, D:0, A:2, lowE:3}\<close> to a chord
  with label "G major" and quality major, the frets \<open>{highE:0, B:0, G:0, D:2, A:2, lowE:0}\<close>
  to label "E minor" and quality minor, and every fretted state whose six pitches have
  fewer than 3 distinct pitch classes to no chord.
\<close>

theorem detectChordFromFrets_round_trip:
  "map_option (\<lambda>c. (chord_label c, chord_quality c)) (detectChordFromFrets g_major_frets)
     = Some (''G major'', major)
   \<and> map_option (\<lambda>c. (chord_label c, chord_quality c)) (detectChordFromFrets e_minor_frets)
     = Some (''E minor'', minor)
   \<and> (card (set (map getPitchClass (fretted_midiValues frettedState))) < 3 \<longrightarrow>
        detectChordFromFrets frettedState = None)"
proof (intro conjI impI)
  show "map_option (\<lambda>c. (chord_label c, chord_quality c)) (detectChordFromFrets g_major_frets)
     = Some (''G major'', major)"
    by code_simp
  show "map_option (\<lambda>c. (chord_label c, chord_quality c)) (detectChordFromFrets e_minor_frets)
     = Some (''E minor'', minor)"
    by code_simp
next
  assume "card (set (map getPitchClass (fretted_midiValues frettedState))) < 3"
  then have "length (Array_from_Set (map getPitchClass (fretted_midiValues frettedState))) < 3"
    by (simp only: length_Array_from_Set)
  then show "detectChordFromFrets frettedState = None"
    by (simp add: detectChordFromFrets_def Let_def)
qed

theorem detectChordFromFrets_round_trip_witness:
  "card (set (map getPitchClass (fretted_midiValues all_e_frets))) < 3
   \<and> detectChordFromFrets all_e_frets = None"
  using detectChordFromFrets_round_trip [of all_e_frets]
  by (simp add: all_e_pitch_classes)

section \<open>Properties of the session engine\<close>

lemmas engine_defs = record_effects_def clearDemoTimeouts_def setIsDemoPlaying_def
  setHeadline_def setStatus_def pushGestureToLog_def touch_def dispatch_def

lemma length_GUITAR_STRINGS [simp]: "length GUITAR_STRINGS = 6"
  by (simp add: GUITAR_STRINGS_def)

lemma findStringIndexFromY_range:
  "0 \<le> findStringIndexFromY y \<and> findStringIndexFromY y \<le> 5"
  by (cases y) (simp_all add: findStringIndexFromY_def)

lemma pitch_fret_createPitchSnapshot:
  "pitch_fret (createPitchSnapshot sd f a d) = clamp (Val f) 0 MAX_FRET"
  by (simp add: createPitchSnapshot_def Let_def)

lemma computeSlideTargetFret_range:
  "0 \<le> computeSlideTargetFret f d dstn \<and> computeSlideTargetFret f d dstn \<le> 12"
  by (simp add: computeSlideTargetFret_def Let_def MAX_FRET_def)

lemma snapshot_fret_tap:
  "pitch_fret (createPitchSnapshot sd (computeFretFromRelativeX r) a d) = computeFretFromRelativeX r"
  using computeFret_range [of r] by (simp add: pitch_fret_createPitchSnapshot MAX_FRET_def)

lemma snapshot_fret_slide:
  "pitch_fret (createPitchSnapshot sd (computeSlideTargetFret f d dstn) a du)
     = computeSlideTargetFret f d dstn"
  using computeSlideTargetFret_range [of f d dstn]
  by (simp add: pitch_fret_createPitchSnapshot MAX_FRET_def)

subsection \<open>The handlers, field by field\<close>

lemma handleGesture_prepared:
  "handleGesture gesture s =
     (case gesture of
        Tap position duration relativePosition \<Rightarrow>
          Inr (captureTap position duration relativePosition (prepared gesture s))
      | Strum direction distance speed relativePosition \<Rightarrow>
          Inr (captureStrum direction distance speed relativePosition (prepared gesture s))
      | Slide direction distance speed relativePosition \<Rightarrow>
          captureSlide direction distance speed relativePosition (prepared gesture s)
      | Unknown detail \<Rightarrow>
          Inr (setStatus (\<lambda>current. current\<lparr>lastGesture := Some gesture, message := Some detail,
                                            activeString := None, strum := None, slide := None,
                                            chord := None\<rparr>) (prepared gesture s)))"
  by (simp only: handleGesture_def prepared_def Let_def)

lemma prepared_fields [simp]:
  "lastStringIndexRef (prepared g s) = lastStringIndexRef s"
  "lastFretRef (prepared g s) = lastFretRef s"
  "frettedStringsRef (prepared g s) = frettedStringsRef s"
  "audioContext (prepared g s) = audioContext s"
  "status (prepared g s) = status s"
  "logLimit (prepared g s) = logLimit s"
  "gestureLog (prepared g s) = take (logLimit s) (g # gestureLog s)"
  "headline (prepared g s) = FormattedGesture g"
  "nextTimeoutId (prepared g s) = nextTimeoutId s"
  by (simp_all add: prepared_def engine_defs)

lemma prepared_demo [simp]:
  "demoTimeoutsRef (prepared g s) = []"
  "isDemoPlaying (prepared g s) = False"
  by (auto simp add: prepared_def engine_defs)

lemma prepared_journal:
  "journal (prepared g s) =
     journal s
     @ (if isDemoPlaying s \<or> demoTimeoutsRef s \<noteq> []
        then map (\<lambda>t. ClearTimeout (timeout_id t)) (demoTimeoutsRef s)
             @ [ResetDemoTimeouts, SetIsDemoPlaying False]
        else [])
     @ [SetGestureLog, SetHeadline]"
  by (simp add: prepared_def engine_defs)

lemma captureTap_fields:
  "lastStringIndexRef (captureTap p d r s) = Some (findStringIndexFromY (snd p))"
  "lastFretRef (captureTap p d r s) = computeFretFromRelativeX (map_option fst r)"
  "frettedStringsRef (captureTap p d r s) =
     (frettedStringsRef s)(string_id (GUITAR_STRINGS ! nat (findStringIndexFromY (snd p)))
        := computeFretFromRelativeX (map_option fst r))"
  "gestureLog (captureTap p d r s) = gestureLog s"
  "demoTimeoutsRef (captureTap p d r s) = demoTimeoutsRef s"
  "isDemoPlaying (captureTap p d r s) = isDemoPlaying s"
  "audioContext (captureTap p d r s) = audioContext s"
  "headline (captureTap p d r s) = headline s"
  "status (captureTap p d r s) =
     (let snapshot = createPitchSnapshot (GUITAR_STRINGS ! nat (findStringIndexFromY (snd p)))
                       (computeFretFromRelativeX (map_option fst r)) tap_articulation (Some d)
      in \<lparr>lastGesture = Some (Tap p d r), message = Some (''Trigger '' @ pitch_label snapshot),
          activeString = Some snapshot, strum = None, slide = None, chord = None\<rparr>)"
  "journal (captureTap p d r s) =
     journal s
     @ [WriteLastStringIndex, WriteLastFret,
        WriteFrettedString (string_id (GUITAR_STRINGS ! nat (findStringIndexFromY (snd p)))),
        SetStatus]
     @ map Device (triggerTap (audioContext s) (findStringIndexFromY (snd p)) d
                     (computeFretFromRelativeX (map_option fst r)))"
  by (simp_all add: captureTap_def Let_def engine_defs snapshot_fret_tap)

lemma captureStrum_fields:
  "lastStringIndexRef (captureStrum dir dstn sp r s) = Some (if dir = Down then 5 else 0)"
  "lastFretRef (captureStrum dir dstn sp r s) = 0"
  "frettedStringsRef (captureStrum dir dstn sp r s) = frettedStringsRef s"
  "gestureLog (captureStrum dir dstn sp r s) = gestureLog s"
  "demoTimeoutsRef (captureStrum dir dstn sp r s) = demoTimeoutsRef s"
  "isDemoPlaying (captureStrum dir dstn sp r s) = isDemoPlaying s"
  "audioContext (captureStrum dir dstn sp r s) = audioContext s"
  "headline (captureStrum dir dstn sp r s) = headline s"
  "status (captureStrum dir dstn sp r s) =
     (let detected = detectChordFromFrets (\<lambda>i. Some (frettedStringsRef s i))
      in \<lparr>lastGesture = Some (Strum dir dstn sp r),
          message = Some (case detected of
                            Some c \<Rightarrow> ''Detected '' @ chord_label c @ '' chord''
                          | None \<Rightarrow> (if dir = Down then ''Downward'' else ''Upward'') @ '' strum''),
          activeString = None,
          strum = Some \<lparr>strum_direction = dir, strum_velocity = mapSpeedToVelocity sp,
                        strum_strings = GUITAR_STRINGS\<rparr>,
          slide = None, chord = detected\<rparr>)"
  "journal (captureStrum dir dstn sp r s) =
     journal s @ [WriteLastStringIndex, WriteLastFret, SetStatus]
     @ map Device (triggerStrum (audioContext s) dir sp)"
  by (simp_all add: captureStrum_def Let_def engine_defs)

lemma slide_anchor:
  "(case x of Some i \<Rightarrow> i | None \<Rightarrow> int (length GUITAR_STRINGS) div 2)
     = (case x of Some i \<Rightarrow> i | None \<Rightarrow> 3)"
  by (cases x) simp_all

lemma captureSlide_Inr:
  assumes "GUITAR_STRINGS_at (case lastStringIndexRef s of Some i \<Rightarrow> i | None \<Rightarrow> 3) = Some sd"
  shows "\<exists>s'. captureSlide dir dstn sp r s = Inr s'
     \<and> lastStringIndexRef s' = Some (case lastStringIndexRef s of Some i \<Rightarrow> i | None \<Rightarrow> 3)
     \<and> lastFretRef s' = computeSlideTargetFret (lastFretRef s) dir dstn
     \<and> frettedStringsRef s' =
         (frettedStringsRef s)(string_id sd := computeSlideTargetFret (lastFretRef s) dir dstn)
     \<and> gestureLog s' = gestureLog s
     \<and> demoTimeoutsRef s' = demoTimeoutsRef s
     \<and> isDemoPlaying s' = isDemoPlaying s
     \<and> audioContext s' = audioContext s
     \<and> headline s' = headline s
     \<and> status s' =
         (let targetFret = computeSlideTargetFret (lastFretRef s) dir dstn;
              snapshot = createPitchSnapshot sd targetFret slide_articulation None
          in \<lparr>lastGesture = Some (Slide dir dstn sp r),
              message = Some ((if dir = Right then ''Forward'' else ''Backward'')
                              @ '' slide to '' @ pitch_label snapshot),
              activeString = Some snapshot, strum = None,
              slide = Some \<lparr>slide_direction = dir, slide_velocity = mapSpeedToVelocity sp,
                            slide_distance = dstn, slide_string = sd,
                            slide_startFret = lastFretRef s, slide_targetFret = targetFret\<rparr>,
              chord = None\<rparr>)
     \<and> journal s' =
         journal s
         @ [WriteLastStringIndex, WriteLastFret, WriteFrettedString (string_id sd), SetStatus]
         @ map Device (triggerSlide (audioContext s)
                         (case lastStringIndexRef s of Some i \<Rightarrow> i | None \<Rightarrow> 3)
                         dir dstn sp (lastFretRef s))"
  using assms
  by (simp add: captureSlide_def Let_def engine_defs snapshot_fret_slide slide_anchor)

lemma index_ok_anchor:
  "index_ok s \<Longrightarrow>
   \<exists>sd. GUITAR_STRINGS_at (case lastStringIndexRef s of Some i \<Rightarrow> i | None \<Rightarrow> 3) = Some sd"
  by (auto simp add: index_ok_def GUITAR_STRINGS_at_def split: option.splits)

lemma index_ok_prepared [simp]: "index_ok (prepared g s) = index_ok s"
  by (simp add: index_ok_def)

lemma findIndex_string:
  "findIndex (\<lambda>entry. string_id entry = sid) GUITAR_STRINGS =
     (case sid of highE \<Rightarrow> 0 | Bstring \<Rightarrow> 1 | Gstring \<Rightarrow> 2 | Dstring \<Rightarrow> 3 | Astring \<Rightarrow> 4 | lowE \<Rightarrow> 5)"
  by (cases sid) (simp_all add: GUITAR_STRINGS_def)

lemma findIndex_string_range:
  "0 \<le> findIndex (\<lambda>entry. string_id entry = sid) GUITAR_STRINGS
   \<and> findIndex (\<lambda>entry. string_id entry = sid) GUITAR_STRINGS \<le> 5"
  by (cases sid) (simp_all add: findIndex_string)

lemma demoNoteCallback_fields:
  fixes e s
  defines "i \<equiv> findIndex (\<lambda>entry. string_id entry = ev_stringId e) GUITAR_STRINGS"
  shows
  "lastStringIndexRef (demoNoteCallback e s) = Some i"
  "lastFretRef (demoNoteCallback e s) = clamp (Val (ev_fret e)) 0 MAX_FRET"
  "frettedStringsRef (demoNoteCallback e s) =
     (frettedStringsRef s)(string_id (GUITAR_STRINGS ! nat i) := clamp (Val (ev_fret e)) 0 MAX_FRET)"
  "gestureLog (demoNoteCallback e s) = gestureLog s"
  "demoTimeoutsRef (demoNoteCallback e s) = demoTimeoutsRef s"
  "isDemoPlaying (demoNoteCallback e s) = isDemoPlaying s"
  "audioContext (demoNoteCallback e s) = audioContext s"
  "status (demoNoteCallback e s) =
     (let snapshot = createPitchSnapshot (GUITAR_STRINGS ! nat i) (ev_fret e) tap_articulation
                       (Some (Val (ev_durationMs e)))
      in \<lparr>lastGesture = None, message = Some (''Demo note '' @ pitch_label snapshot),
          activeString = Some snapshot, strum = None, slide = None, chord = None\<rparr>)"
  "journal (demoNoteCallback e s) =
     journal s
     @ [WriteLastStringIndex, WriteLastFret, WriteFrettedString (string_id (GUITAR_STRINGS ! nat i)),
        SetStatus, SetHeadline]
     @ map Device (triggerTap (audioContext s) i (Val (ev_durationMs e))
                     (clamp (Val (ev_fret e)) 0 MAX_FRET))"
  using findIndex_string_range [of "ev_stringId e"]
  by (simp_all add: i_def demoNoteCallback_def Let_def engine_defs pitch_fret_createPitchSnapshot)

lemma new_effects_append: "journal s' = journal s @ es \<Longrightarrow> new_effects s s' = es"
  by (simp add: new_effects_def)

lemma device_calls_append [simp]: "device_calls (xs @ ys) = device_calls xs @ device_calls ys"
  by (simp add: device_calls_def List.map_filter_def)

lemma device_calls_Device [simp]: "device_calls (map Device cs) = cs"
  by (induction cs) (simp_all add: device_calls_def List.map_filter_def)

lemma device_calls_Cons:
  "device_calls (e # es) = (case device_call_of e of Some c \<Rightarrow> c # device_calls es | None \<Rightarrow> device_calls es)"
  by (simp add: device_calls_def List.map_filter_def split: option.splits)

lemma device_calls_Nil [simp]: "device_calls [] = []"
  by (simp add: device_calls_def List.map_filter_def)

lemma device_calls_ClearTimeouts [simp]:
  "device_calls (map (\<lambda>t. ClearTimeout (timeout_id t)) ts) = []"
  by (induction ts) (simp_all add: device_calls_Cons)

lemma playDemo_active: "isDemoPlaying s \<Longrightarrow> playDemo s = s"
  by (simp add: playDemo_def)

lemma schedule_fold_fields:
  "isDemoPlaying (fold (\<lambda>event. scheduleDemoTimeout (DemoNote event) (ev_atMs event)) es s)
     = isDemoPlaying s"
  "lastStringIndexRef (fold (\<lambda>event. scheduleDemoTimeout (DemoNote event) (ev_atMs event)) es s)
     = lastStringIndexRef s"
  "lastFretRef (fold (\<lambda>event. scheduleDemoTimeout (DemoNote event) (ev_atMs event)) es s)
     = lastFretRef s"
  "length (demoTimeoutsRef (fold (\<lambda>event. scheduleDemoTimeout (DemoNote event) (ev_atMs event)) es s))
     = length (demoTimeoutsRef s) + length es"
  by (induction es arbitrary: s) (simp_all add: scheduleDemoTimeout_def record_effects_def Let_def)

lemma playDemo_starts:
  assumes "\<not> isDemoPlaying s"
  shows "isDemoPlaying (playDemo s)"
    and "lastStringIndexRef (playDemo s) = lastStringIndexRef s"
    and "length (demoTimeoutsRef (playDemo s)) = length CLASSICAL_DEMO_SEQUENCE + 1"
    and "lastFretRef (playDemo s) = lastFretRef s"
  using assms
  by (simp_all add: playDemo_def Let_def scheduleDemoTimeout_def record_effects_def
      schedule_fold_fields setStatus_def setHeadline_def setIsDemoPlaying_def clearDemoTimeouts_def)

lemma last_touched_playDemo: "last_touched (playDemo s) = last_touched s"
proof (cases "isDemoPlaying s")
  case True
  then show ?thesis by (simp add: playDemo_active)
next
  case False
  then show ?thesis by (simp add: last_touched_def playDemo_starts)
qed

lemma last_touched_demoCompletionCallback:
  "last_touched (demoCompletionCallback s) = last_touched s"
  by (simp add: last_touched_def demoCompletionCallback_def Let_def engine_defs)

lemma strum_frame:
  "handleGesture (Strum direction distance speed rel) s =
     Inr (s\<lparr>gestureLog := take (logLimit s) (Strum direction distance speed rel # gestureLog s),
            headline := FormattedGesture (Strum direction distance speed rel),
            status :=
              \<lparr>lastGesture = Some (Strum direction distance speed rel),
               message = Some (case detectChordFromFrets (\<lambda>i. Some (frettedStringsRef s i)) of
                                 Some c \<Rightarrow> ''Detected '' @ chord_label c @ '' chord''
                               | None \<Rightarrow> (if direction = Down then ''Downward'' else ''Upward'')
                                          @ '' strum''),
               activeString = None,
               strum = Some \<lparr>strum_direction = direction,
                             strum_velocity = mapSpeedToVelocity speed,
                             strum_strings = GUITAR_STRINGS\<rparr>,
               slide = None,
               chord = detectChordFromFrets (\<lambda>i. Some (frettedStringsRef s i))\<rparr>,
            isDemoPlaying := False,
            lastStringIndexRef := Some (if direction = Down then 5 else 0),
            lastFretRef := 0,
            demoTimeoutsRef := [],
            journal := journal s
              @ (if isDemoPlaying s \<or> demoTimeoutsRef s \<noteq> []
                 then map (\<lambda>t. ClearTimeout (timeout_id t)) (demoTimeoutsRef s)
                      @ [ResetDemoTimeouts, SetIsDemoPlaying False]
                 else [])
              @ [SetGestureLog, SetHeadline, WriteLastStringIndex, WriteLastFret, SetStatus]
              @ map Device (triggerStrum (audioContext s) direction speed)\<rparr>)"
  by (simp add: handleGesture_def captureStrum_def Let_def engine_defs)

lemma playDemo_initial_pending:
  "demo_pending (playDemo (initialEngine 5 None)) = (True, 18)"
proof -
  have n: "\<not> isDemoPlaying (initialEngine 5 None)"
    by (simp add: initialEngine_def)
  show ?thesis
    using playDemo_starts(1,3) [OF n]
    by (simp add: demo_pending_def CLASSICAL_DEMO_SEQUENCE_def)
qed

text \<open>
  C7, as stated, fails. After a tap on string 2 at fret 6, a downward strum leaves the
  last-touched position at string 5, fret 0. The first demo note moves the last-touched
  position of a fresh engine to string 5, fret 0. A strum also sets the headline, and a
  strum during a demo clears the demo-active flag and the eighteen pending demo timers.
\<close>

theorem strum_last_touched_counterexample:
  "map_sum id last_touched (run_gestures [sample_tap] (initialEngine 5 None)) = Inr (Some 2, 6)
   \<and> map_sum id last_touched (run_gestures [sample_tap, sample_strum] (initialEngine 5 None))
       = Inr (Some 5, 0)
   \<and> last_touched (initialEngine 5 None) = (None, 0)
   \<and> last_touched (demoNoteCallback first_demo_event (initialEngine 5 None)) = (Some 5, 0)
   \<and> headline (initialEngine 5 None) = HeadlineText ''Waiting for gestures...''
   \<and> map_sum id headline (handleGesture sample_strum (initialEngine 5 None))
       = Inr (FormattedGesture sample_strum)
   \<and> demo_pending (playDemo (initialEngine 5 None)) = (True, 18)
   \<and> map_sum id demo_pending (handleGesture sample_strum (playDemo (initialEngine 5 None)))
       = Inr (False, 0)"
proof (intro conjI)
  show "map_sum id last_touched (run_gestures [sample_tap] (initialEngine 5 None)) = Inr (Some 2, 6)"
    by (simp add: handleGesture_prepared sample_tap_def last_touched_def captureTap_fields
      findStringIndexFromY_def STRING_TOP_OFFSET_PX_def STRING_SPACING_PX_def Math_round_def fret_defs)
  show "map_sum id last_touched (run_gestures [sample_tap, sample_strum] (initialEngine 5 None))
       = Inr (Some 5, 0)"
    by (simp add: handleGesture_prepared sample_tap_def sample_strum_def last_touched_def
      captureStrum_fields)
  show "last_touched (initialEngine 5 None) = (None, 0)"
    by (simp add: last_touched_def initialEngine_def)
  show "last_touched (demoNoteCallback first_demo_event (initialEngine 5 None)) = (Some 5, 0)"
    by (simp add: last_touched_def demoNoteCallback_fields first_demo_event_def findIndex_string
        MAX_FRET_def)
  show "headline (initialEngine 5 None) = HeadlineText ''Waiting for gestures...''"
    by (simp add: initialEngine_def)
  show "map_sum id headline (handleGesture sample_strum (initialEngine 5 None))
       = Inr (FormattedGesture sample_strum)"
    by (simp add: handleGesture_prepared sample_strum_def captureStrum_fields)
  show "demo_pending (playDemo (initialEngine 5 None)) = (True, 18)"
    by (rule playDemo_initial_pending)
  show "map_sum id demo_pending (handleGesture sample_strum (playDemo (initialEngine 5 None)))
       = Inr (False, 0)"
    by (simp add: handleGesture_prepared sample_strum_def captureStrum_fields demo_pending_def)
qed

text \<open>
  C7, amended. The last-touched position is overwritten by every tap, every slide, every
  strum and every demo note, and by nothing else: a tap sets it to the tapped string and
  fret, a slide to the anchor string and the slide's target fret, a strum to string 5
  (down) or string 0 (up) at fret 0, a demo note to the note's string and clamped fret; an
  unknown gesture, the start of the demo and the demo's terminal callback leave it
  unchanged. Beyond that write, the effects of a strum are limited to the cancellation of
  a running demo (its pending timers and the demo-active flag), the log append, the
  headline, the status update (with the derived velocity and the recognized chord) and
  the strum dispatch: the state after a strum is the state before it with exactly these
  fields rewritten, and the fretted state is unchanged.
\<close>

theorem last_touched_overwritten:
  "(\<exists>s'. handleGesture (Tap position duration relativePosition) s = Inr s'
         \<and> last_touched s' = (Some (findStringIndexFromY (snd position)),
                               computeFretFromRelativeX (map_option fst relativePosition)))
   \<and> (index_ok s \<longrightarrow>
        (\<exists>s'. handleGesture (Slide sdir sdist sspeed srel) s = Inr s'
           \<and> last_touched s' =
               (Some (case lastStringIndexRef s of Some i \<Rightarrow> i | None \<Rightarrow> 3),
                computeSlideTargetFret (lastFretRef s) sdir sdist)))
   \<and> (\<exists>s'. handleGesture (Strum direction distance speed rel) s = Inr s'
         \<and> last_touched s' = (Some (if direction = Down then 5 else 0), 0)
         \<and> frettedStringsRef s' = frettedStringsRef s)
   \<and> handleGesture (Strum direction distance speed rel) s =
       Inr (s\<lparr>gestureLog := take (logLimit s) (Strum direction distance speed rel # gestureLog s),
              headline := FormattedGesture (Strum direction distance speed rel),
              status :=
                \<lparr>lastGesture = Some (Strum direction distance speed rel),
                 message = Some (case detectChordFromFrets (\<lambda>i. Some (frettedStringsRef s i)) of
                                   Some c \<Rightarrow> ''Detected '' @ chord_label c @ '' chord''
                                 | None \<Rightarrow> (if direction = Down then ''Downward'' else ''Upward'')
                                            @ '' strum''),
                 activeString = None,
                 strum = Some \<lparr>strum_direction = direction,
                               strum_velocity = mapSpeedToVelocity speed,
                               strum_strings = GUITAR_STRINGS\<rparr>,
                 slide = None,
                 chord = detectChordFromFrets (\<lambda>i. Some (frettedStringsRef s i))\<rparr>,
              isDemoPlaying := False,
              lastStringIndexRef := Some (if direction = Down then 5 else 0),
              lastFretRef := 0,
              demoTimeoutsRef := [],
              journal := journal s
                @ (if isDemoPlaying s \<or> demoTimeoutsRef s \<noteq> []
                   then map (\<lambda>t. ClearTimeout (timeout_id t)) (demoTimeoutsRef s)
                        @ [ResetDemoTimeouts, SetIsDemoPlaying False]
                   else [])
                @ [SetGestureLog, SetHeadline, WriteLastStringIndex, WriteLastFret, SetStatus]
                @ map Device (triggerStrum (audioContext s) direction speed)\<rparr>)
   \<and> (\<exists>s'. handleGesture (Unknown detail) s = Inr s' \<and> last_touched s' = last_touched s)
   \<and> last_touched (demoNoteCallback event s) =
       (Some (findIndex (\<lambda>entry. string_id entry = ev_stringId event) GUITAR_STRINGS),
        clamp (Val (ev_fret event)) 0 MAX_FRET)
   \<and> last_touched (playDemo s) = last_touched s
   \<and> last_touched (demoCompletionCallback s) = last_touched s"
proof (intro conjI impI)
  show "\<exists>s'. handleGesture (Tap position duration relativePosition) s = Inr s'
         \<and> last_touched s' = (Some (findStringIndexFromY (snd position)),
                               computeFretFromRelativeX (map_option fst relativePosition))"
    by (simp add: handleGesture_prepared last_touched_def captureTap_fields)
next
  assume "index_ok s"
  then obtain sd where
    "GUITAR_STRINGS_at (case lastStringIndexRef (prepared (Slide sdir sdist sspeed srel) s) of
                          Some i \<Rightarrow> i | None \<Rightarrow> 3) = Some sd"
    using index_ok_anchor [of s] by auto
  from captureSlide_Inr [OF this, of sdir sdist sspeed srel]
  show "\<exists>s'. handleGesture (Slide sdir sdist sspeed srel) s = Inr s'
           \<and> last_touched s' =
               (Some (case lastStringIndexRef s of Some i \<Rightarrow> i | None \<Rightarrow> 3),
                computeSlideTargetFret (lastFretRef s) sdir sdist)"
    by (auto simp add: handleGesture_prepared last_touched_def)
next
  show "\<exists>s'. handleGesture (Strum direction distance speed rel) s = Inr s'
         \<and> last_touched s' = (Some (if direction = Down then 5 else 0), 0)
         \<and> frettedStringsRef s' = frettedStringsRef s"
    by (simp add: handleGesture_prepared last_touched_def captureStrum_fields)
next
  show "handleGesture (Strum direction distance speed rel) s =
       Inr (s\<lparr>gestureLog := take (logLimit s) (Strum direction distance speed rel # gestureLog s),
              headline := FormattedGesture (Strum direction distance speed rel),
              status :=
                \<lparr>lastGesture = Some (Strum direction distance speed rel),
                 message = Some (case detectChordFromFrets (\<lambda>i. Some (frettedStringsRef s i)) of
                                   Some c \<Rightarrow> ''Detected '' @ chord_label c @ '' chord''
                                 | None \<Rightarrow> (if direction = Down then ''Downward'' else ''Upward'')
                                            @ '' strum''),
                 activeString = None,
                 strum = Some \<lparr>strum_direction = direction,
                               strum_velocity = mapSpeedToVelocity speed,
                               strum_strings = GUITAR_STRINGS\<rparr>,
                 slide = None,
                 chord = detectChordFromFrets (\<lambda>i. Some (frettedStringsRef s i))\<rparr>,
              isDemoPlaying := False,
              lastStringIndexRef := Some (if direction = Down then 5 else 0),
              lastFretRef := 0,
              demoTimeoutsRef := [],
              journal := journal s
                @ (if isDemoPlaying s \<or> demoTimeoutsRef s \<noteq> []
                   then map (\<lambda>t. ClearTimeout (timeout_id t)) (demoTimeoutsRef s)
                        @ [ResetDemoTimeouts, SetIsDemoPlaying False]
                   else [])
                @ [SetGestureLog, SetHeadline, WriteLastStringIndex, WriteLastFret, SetStatus]
                @ map Device (triggerStrum (audioContext s) direction speed)\<rparr>)"
    by (rule strum_frame)
next
  show "\<exists>s'. handleGesture (Unknown detail) s = Inr s' \<and> last_touched s' = last_touched s"
    by (simp add: handleGesture_prepared last_touched_def setStatus_def record_effects_def)
next
  show "last_touched (demoNoteCallback event s) =
       (Some (findIndex (\<lambda>entry. string_id entry = ev_stringId event) GUITAR_STRINGS),
        clamp (Val (ev_fret event)) 0 MAX_FRET)"
    by (simp add: last_touched_def demoNoteCallback_fields)
next
  show "last_touched (playDemo s) = last_touched s"
    by (rule last_touched_playDemo)
next
  show "last_touched (demoCompletionCallback s) = last_touched s"
    by (rule last_touched_demoCompletionCallback)
qed

theorem last_touched_overwritten_witness:
  "index_ok (initialEngine 5 None)
   \<and> (\<exists>s'. handleGesture sample_slide (initialEngine 5 None) = Inr s'
           \<and> last_touched s' = (Some 3, 3))"
proof -
  have ok: "index_ok (initialEngine 5 None)"
    by (simp add: index_ok_def initialEngine_def)
  have "computeSlideTargetFret 0 Right (Val 100) = 3"
    by (simp add: computeSlideTargetFret_def mapDistanceToSlideSemitones_def Math_round_def
        MAX_FRET_def)
  then show ?thesis
    using ok last_touched_overwritten [of _ _ _ "initialEngine 5 None" Right "Val 100" "Val 1" None]
    by (simp add: sample_slide_def initialEngine_def)
qed

lemma status_all_fields:
  "current\<lparr>lastGesture := a, message := b, activeString := c, strum := d, slide := e, chord := f\<rparr>
     = \<lparr>lastGesture = a, message = b, activeString = c, strum = d, slide = e, chord = f\<rparr>"
  by (cases current) simp

lemma unknown_status:
  "status (setStatus (\<lambda>current. current\<lparr>lastGesture := a, message := b, activeString := None,
                                          strum := None, slide := None, chord := None\<rparr>) s)
     = \<lparr>lastGesture = a, message = b, activeString = None, strum = None, slide = None,
        chord = None\<rparr>"
  by (simp add: setStatus_def record_effects_def status_all_fields)

lemma prepared_status_update:
  "lastStringIndexRef (prepared g (s\<lparr>status := st\<rparr>)) = lastStringIndexRef s"
  "lastFretRef (prepared g (s\<lparr>status := st\<rparr>)) = lastFretRef s"
  "frettedStringsRef (prepared g (s\<lparr>status := st\<rparr>)) = frettedStringsRef s"
  by simp_all

lemma captureSlide_Inl:
  "GUITAR_STRINGS_at (case lastStringIndexRef s of Some i \<Rightarrow> i | None \<Rightarrow> 3) = None \<Longrightarrow>
   captureSlide dir dstn sp r s = Inl TypeError"
  by (simp add: captureSlide_def Let_def slide_anchor)

lemma slide_status_independent:
  "map_sum id status (captureSlide dir dstn sp r (prepared g (s\<lparr>status := st\<rparr>)))
     = map_sum id status (captureSlide dir dstn sp r (prepared g s))"
proof (cases "GUITAR_STRINGS_at (case lastStringIndexRef s of Some i \<Rightarrow> i | None \<Rightarrow> 3)")
  case None
  then show ?thesis by (simp add: captureSlide_Inl)
next
  case (Some sd)
  then have a: "GUITAR_STRINGS_at (case lastStringIndexRef (prepared g (s\<lparr>status := st\<rparr>)) of
                                      Some i \<Rightarrow> i | None \<Rightarrow> 3) = Some sd"
    and b: "GUITAR_STRINGS_at (case lastStringIndexRef (prepared g s) of
                                      Some i \<Rightarrow> i | None \<Rightarrow> 3) = Some sd"
    by simp_all
  show ?thesis
    using captureSlide_Inr [OF a, of dir dstn sp r] captureSlide_Inr [OF b, of dir dstn sp r]
    by auto
qed

lemma status_schedule_fold:
  "status (fold (\<lambda>event. scheduleDemoTimeout (DemoNote event) (ev_atMs event)) es s) = status s"
  by (induction es arbitrary: s) (simp_all add: scheduleDemoTimeout_def record_effects_def Let_def)

lemma status_playDemo:
  "\<not> isDemoPlaying s \<Longrightarrow> status (playDemo s) = demo_start_status"
  by (simp add: playDemo_def Let_def scheduleDemoTimeout_def record_effects_def
      status_schedule_fold setStatus_def setHeadline_def setIsDemoPlaying_def
      clearDemoTimeouts_def status_all_fields demo_start_status_def)

lemma status_demoCompletionCallback:
  "status (demoCompletionCallback s) =
     (status s)\<lparr>message := Some ''Demo complete. Try your own interactions!'',
                activeString := None, strum := None, slide := None\<rparr>"
  by (simp add: demoCompletionCallback_def Let_def engine_defs)

lemma demoTimeoutsRef_demoCompletionCallback:
  "demoTimeoutsRef (demoCompletionCallback s) = demoTimeoutsRef s"
  by (simp add: demoCompletionCallback_def Let_def engine_defs)

lemma handleGesture_clears:
  assumes "handleGesture g s = Inr s'"
  shows "demoTimeoutsRef s' = []"
proof (cases g)
  case (Tap p d r)
  then show ?thesis using assms by (auto simp add: handleGesture_prepared captureTap_fields)
next
  case (Strum dir dstn sp r)
  then show ?thesis using assms by (auto simp add: handleGesture_prepared captureStrum_fields)
next
  case (Slide dir dstn sp r)
  show ?thesis
  proof (cases "GUITAR_STRINGS_at (case lastStringIndexRef (prepared g s) of
                                      Some i \<Rightarrow> i | None \<Rightarrow> 3)")
    case None
    then show ?thesis
      using assms Slide captureSlide_Inl [of "prepared g s" dir dstn sp r]
      by (simp add: handleGesture_prepared)
  next
    case (Some sd)
    from captureSlide_Inr [OF Some, of dir dstn sp r]
    show ?thesis using assms Slide by (auto simp add: handleGesture_prepared)
  qed
next
  case (Unknown d)
  then show ?thesis
    using assms by (auto simp add: handleGesture_prepared setStatus_def record_effects_def)
qed

text \<open>While a demo timer is pending, the status holds no last gesture and no chord.\<close>

lemma pending_status:
  "reachable s \<Longrightarrow> demoTimeoutsRef s \<noteq> [] \<Longrightarrow>
   lastGesture (status s) = None \<and> chord (status s) = None"
proof (induction rule: reachable.induct)
  case (reachable_initial limit ctx)
  then show ?case by (simp add: initialEngine_def)
next
  case (reachable_gesture s g s')
  then show ?case using handleGesture_clears [of g s s'] by simp
next
  case (reachable_playDemo s)
  show ?case
  proof (cases "isDemoPlaying s")
    case True
    then show ?thesis using reachable_playDemo by (simp add: playDemo_active)
  next
    case False
    then show ?thesis by (simp add: status_playDemo demo_start_status_def)
  qed
next
  case (reachable_timeout s tid)
  show ?case
  proof (cases "find (\<lambda>t. timeout_id t = tid) (demoTimeoutsRef s)")
    case None
    then show ?thesis using reachable_timeout by (simp add: fireDemoTimeout_def)
  next
    case (Some t)
    then have ne: "demoTimeoutsRef s \<noteq> []" by auto
    show ?thesis
    proof (cases "timeout_callback t")
      case (DemoNote event)
      then show ?thesis
        using Some by (simp add: fireDemoTimeout_def Let_def demoNoteCallback_fields)
    next
      case DemoCompletion
      then show ?thesis
        using Some reachable_timeout.IH [OF ne]
        by (simp add: fireDemoTimeout_def Let_def status_demoCompletionCallback
            record_effects_def)
    qed
  qed
qed

lemma terminal_tick_status:
  assumes "reachable s" "find (\<lambda>t. timeout_id t = tid) (demoTimeoutsRef s) = Some t"
    "timeout_callback t = DemoCompletion"
  shows "status (fireDemoTimeout tid s) = demo_complete_status"
proof -
  from assms(2) have ne: "demoTimeoutsRef s \<noteq> []" by auto
  from pending_status [OF assms(1) ne]
  have "status s = (status s)\<lparr>lastGesture := None, chord := None\<rparr>" by simp
  then have "(status s)\<lparr>message := Some ''Demo complete. Try your own interactions!'',
                activeString := None, strum := None, slide := None\<rparr> = demo_complete_status"
    by (cases "status s") (simp add: demo_complete_status_def)
  then show ?thesis
    using assms(2,3)
    by (simp add: fireDemoTimeout_def Let_def status_demoCompletionCallback record_effects_def)
qed

lemma playDemo_initial_timeouts:
  "find (\<lambda>t. timeout_id t = 17) (demoTimeoutsRef (playDemo (initialEngine 5 None)))
     = Some \<lparr>timeout_id = 17, timeout_delayMs = 5120, timeout_callback = DemoCompletion\<rparr>"
  by (simp add: playDemo_def Let_def initialEngine_def CLASSICAL_DEMO_SEQUENCE_def
      scheduleDemoTimeout_def engine_defs CLASSICAL_DEMO_DURATION_MS_def
      DEMO_COMPLETION_DELAY_MS_def)

text \<open>
  C1, as stated, fails: the status written for a slide populates both \<open>activeString\<close>
  and \<open>slide\<close>; and the updater of the terminal demo tick merges, keeping the last
  gesture of the status it is applied to (a strum's, where there is one).
\<close>

theorem slide_status_counterexample:
  "map_sum id (populated \<circ> status) (handleGesture sample_slide (initialEngine 5 None))
     = Inr (True, False, True)
   \<and> (lastGesture \<circ> status \<circ> demoCompletionCallback) (initialEngine 5 None) = None
   \<and> map_sum id (lastGesture \<circ> status \<circ> demoCompletionCallback)
         (handleGesture sample_strum (initialEngine 5 None)) = Inr (Some sample_strum)"
proof (intro conjI)
  have "GUITAR_STRINGS_at (case lastStringIndexRef (prepared sample_slide (initialEngine 5 None)) of
                             Some i \<Rightarrow> i | None \<Rightarrow> 3) = Some (GUITAR_STRINGS ! 3)"
    by (simp add: initialEngine_def GUITAR_STRINGS_at_def)
  from captureSlide_Inr [OF this, of Right "Val 100" "Val 1" None]
  show "map_sum id (populated \<circ> status) (handleGesture sample_slide (initialEngine 5 None))
     = Inr (True, False, True)"
    by (auto simp add: handleGesture_prepared sample_slide_def populated_def Let_def)
  show "(lastGesture \<circ> status \<circ> demoCompletionCallback) (initialEngine 5 None) = None"
    by (simp add: status_demoCompletionCallback initialEngine_def)
  show "map_sum id (lastGesture \<circ> status \<circ> demoCompletionCallback)
         (handleGesture sample_strum (initialEngine 5 None)) = Inr (Some sample_strum)"
    by (simp add: status_demoCompletionCallback handleGesture_prepared sample_strum_def
        captureStrum_fields Let_def)
qed

text \<open>
  C1, amended. For every gesture and every demo-tick status update: of the status fields
  \<open>activeString\<close>, \<open>strum\<close> and \<open>slide\<close>, a tap and a demo note populate
  \<open>activeString\<close> alone, a strum populates \<open>strum\<close> alone, a slide populates both
  \<open>activeString\<close> and \<open>slide\<close>, and an unknown gesture, the demo start and the
  terminal demo tick clear all three. The status is replaced wholesale by every gesture,
  every demo note and the demo start: the status after it does not depend on the status
  before it. The terminal demo tick merges: it replaces the message, clears the three
  fields and keeps \<open>lastGesture\<close> and \<open>chord\<close> of the previous status; on every
  reachable state in which it fires these two are undefined, so that the status it leaves
  is one fixed status.
\<close>

theorem status_fields_per_update:
  "(\<exists>s'. handleGesture (Tap position duration relativePosition) s = Inr s'
         \<and> populated (status s') = (True, False, False))
   \<and> (\<exists>s'. handleGesture (Strum direction distance speed rel) s = Inr s'
         \<and> populated (status s') = (False, True, False))
   \<and> (index_ok s \<longrightarrow>
        (\<exists>s'. handleGesture (Slide sdir sdist sspeed srel) s = Inr s'
           \<and> populated (status s') = (True, False, True)))
   \<and> (\<exists>s'. handleGesture (Unknown detail) s = Inr s'
         \<and> populated (status s') = (False, False, False))
   \<and> populated (status (demoNoteCallback event s)) = (True, False, False)
   \<and> map_sum id status (handleGesture g (s\<lparr>status := st\<rparr>)) = map_sum id status (handleGesture g s)
   \<and> status (demoNoteCallback event (s\<lparr>status := st\<rparr>)) = status (demoNoteCallback event s)
   \<and> (\<not> isDemoPlaying s \<longrightarrow> status (playDemo s) = demo_start_status)
   \<and> populated demo_start_status = (False, False, False)
   \<and> status (demoCompletionCallback s) =
       (status s)\<lparr>message := Some ''Demo complete. Try your own interactions!'',
                  activeString := None, strum := None, slide := None\<rparr>
   \<and> populated (status (demoCompletionCallback s)) = (False, False, False)
   \<and> (reachable s \<and> find (\<lambda>t. timeout_id t = tid) (demoTimeoutsRef s) = Some t
        \<and> timeout_callback t = DemoCompletion \<longrightarrow>
        status (fireDemoTimeout tid s) = demo_complete_status)"
proof (intro conjI impI)
  assume "\<not> isDemoPlaying s"
  then show "status (playDemo s) = demo_start_status"
    by (rule status_playDemo)
next
  show "populated demo_start_status = (False, False, False)"
    by (simp add: populated_def demo_start_status_def)
  show "status (demoCompletionCallback s) =
       (status s)\<lparr>message := Some ''Demo complete. Try your own interactions!'',
                  activeString := None, strum := None, slide := None\<rparr>"
    by (rule status_demoCompletionCallback)
  show "populated (status (demoCompletionCallback s)) = (False, False, False)"
    by (simp add: populated_def status_demoCompletionCallback)
next
  assume "reachable s \<and> find (\<lambda>t. timeout_id t = tid) (demoTimeoutsRef s) = Some t
        \<and> timeout_callback t = DemoCompletion"
  then show "status (fireDemoTimeout tid s) = demo_complete_status"
    using terminal_tick_status [of s tid t] by simp
next
  show "\<exists>s'. handleGesture (Tap position duration relativePosition) s = Inr s'
         \<and> populated (status s') = (True, False, False)"
    by (simp add: handleGesture_prepared populated_def captureTap_fields Let_def)
  show "\<exists>s'. handleGesture (Strum direction distance speed rel) s = Inr s'
         \<and> populated (status s') = (False, True, False)"
    by (simp add: handleGesture_prepared populated_def captureStrum_fields Let_def)
  show "\<exists>s'. handleGesture (Unknown detail) s = Inr s'
         \<and> populated (status s') = (False, False, False)"
    by (simp add: handleGesture_prepared populated_def unknown_status)
  show "populated (status (demoNoteCallback event s)) = (True, False, False)"
    by (simp add: populated_def demoNoteCallback_fields Let_def)
  show "status (demoNoteCallback event (s\<lparr>status := st\<rparr>)) = status (demoNoteCallback event s)"
    by (simp add: demoNoteCallback_fields)
  show "map_sum id status (handleGesture g (s\<lparr>status := st\<rparr>)) = map_sum id status (handleGesture g s)"
  proof (cases g)
    case (Tap p d r)
    then show ?thesis by (simp add: handleGesture_prepared captureTap_fields)
  next
    case (Strum dir dstn sp r)
    then show ?thesis by (simp add: handleGesture_prepared captureStrum_fields)
  next
    case (Slide dir dstn sp r)
    then show ?thesis by (simp add: handleGesture_prepared slide_status_independent)
  next
    case (Unknown d)
    then show ?thesis by (simp add: handleGesture_prepared unknown_status)
  qed
next
  assume "index_ok s"
  then obtain sd where
    "GUITAR_STRINGS_at (case lastStringIndexRef (prepared (Slide sdir sdist sspeed srel) s) of
                          Some i \<Rightarrow> i | None \<Rightarrow> 3) = Some sd"
    using index_ok_anchor [of s] by auto
  from captureSlide_Inr [OF this, of sdir sdist sspeed srel]
  show "\<exists>s'. handleGesture (Slide sdir sdist sspeed srel) s = Inr s'
           \<and> populated (status s') = (True, False, True)"
    by (auto simp add: handleGesture_prepared populated_def Let_def)
qed

theorem status_fields_per_update_witness:
  "index_ok (initialEngine 5 None)
   \<and> (\<exists>s'. handleGesture sample_slide (initialEngine 5 None) = Inr s'
           \<and> populated (status s') = (True, False, True))
   \<and> \<not> isDemoPlaying (initialEngine 5 None)
   \<and> status (playDemo (initialEngine 5 None)) = demo_start_status
   \<and> reachable (playDemo (initialEngine 5 None))
   \<and> find (\<lambda>t. timeout_id t = 17) (demoTimeoutsRef (playDemo (initialEngine 5 None)))
       = Some \<lparr>timeout_id = 17, timeout_delayMs = 5120, timeout_callback = DemoCompletion\<rparr>
   \<and> status (fireDemoTimeout 17 (playDemo (initialEngine 5 None))) = demo_complete_status"
proof -
  have ok: "index_ok (initialEngine 5 None)"
    by (simp add: index_ok_def initialEngine_def)
  have idle: "\<not> isDemoPlaying (initialEngine 5 None)"
    by (simp add: initialEngine_def)
  have reach: "reachable (playDemo (initialEngine 5 None))"
    by (intro reachable_playDemo reachable_initial)
  note inst = status_fields_per_update [where s = "initialEngine 5 None" and sdir = Right
      and sdist = "Val 100" and sspeed = "Val 1" and srel = None]
  note fire = status_fields_per_update [where s = "playDemo (initialEngine 5 None)" and tid = 17
      and t = "\<lparr>timeout_id = 17, timeout_delayMs = 5120, timeout_callback = DemoCompletion\<rparr>"]
  have a: "\<exists>s'. handleGesture sample_slide (initialEngine 5 None) = Inr s'
           \<and> populated (status s') = (True, False, True)"
    using inst ok by (simp add: sample_slide_def)
  have b: "status (playDemo (initialEngine 5 None)) = demo_start_status"
    using inst idle by simp
  have c: "status (fireDemoTimeout 17 (playDemo (initialEngine 5 None))) = demo_complete_status"
    using fire reach playDemo_initial_timeouts by simp
  show ?thesis
    using ok idle reach a b c playDemo_initial_timeouts by simp
qed

lemma first_demo_label: "midiToNoteLabel 40 = ''E2''"
  by code_simp

lemma first_demo_tap_position:
  "findStringIndexFromY (Val 240) = 5" "computeFretFromRelativeX (Some (Val (1 / 10))) = 0"
  by (simp_all add: findStringIndexFromY_def STRING_TOP_OFFSET_PX_def STRING_SPACING_PX_def
      Math_round_def fret_defs)

lemma low_e_string: "string_midi (GUITAR_STRINGS ! 5) = 40"
  by (simp add: GUITAR_STRINGS_def)

lemma pitch_label_createPitchSnapshot:
  "pitch_label (createPitchSnapshot sd f a d) = midiToNoteLabel (string_midi sd + clamp (Val f) 0 MAX_FRET)"
  by (simp add: createPitchSnapshot_def Let_def)

text \<open>
  C2, as stated, fails: on the first entry of the demo script (low E, fret 0) the demo
  callback leaves the gesture log empty, sets no last gesture and the message
  "Demo note E2", where a tap on the same string and fret logs the gesture, sets it as
  the last gesture and sets the message "Trigger E2".
\<close>

theorem demo_note_log_counterexample:
  "first_demo_event \<in> set CLASSICAL_DEMO_SEQUENCE
   \<and> findStringIndexFromY (Val 240) = demo_string_index first_demo_event
   \<and> computeFretFromRelativeX (Some (Val (1 / 10))) = ev_fret first_demo_event
   \<and> gestureLog (demoNoteCallback first_demo_event (initialEngine 5 None)) = []
   \<and> map_sum id gestureLog (handleGesture first_demo_tap (initialEngine 5 None))
       = Inr [first_demo_tap]
   \<and> lastGesture (status (demoNoteCallback first_demo_event (initialEngine 5 None))) = None
   \<and> map_sum id (lastGesture \<circ> status) (handleGesture first_demo_tap (initialEngine 5 None))
       = Inr (Some first_demo_tap)
   \<and> message (status (demoNoteCallback first_demo_event (initialEngine 5 None)))
       = Some ''Demo note E2''
   \<and> map_sum id (message \<circ> status) (handleGesture first_demo_tap (initialEngine 5 None))
       = Inr (Some ''Trigger E2'')"
proof (intro conjI)
  show "first_demo_event \<in> set CLASSICAL_DEMO_SEQUENCE"
    by (simp add: first_demo_event_def CLASSICAL_DEMO_SEQUENCE_def)
  show "findStringIndexFromY (Val 240) = demo_string_index first_demo_event"
    by (simp add: first_demo_tap_position findIndex_string first_demo_event_def
        demo_string_index_def)
  show "computeFretFromRelativeX (Some (Val (1 / 10))) = ev_fret first_demo_event"
    by (simp add: first_demo_tap_position first_demo_event_def)
  show "gestureLog (demoNoteCallback first_demo_event (initialEngine 5 None)) = []"
    by (simp add: demoNoteCallback_fields initialEngine_def)
  show "map_sum id gestureLog (handleGesture first_demo_tap (initialEngine 5 None))
       = Inr [first_demo_tap]"
    by (simp add: handleGesture_prepared first_demo_tap_def captureTap_fields initialEngine_def)
  show "lastGesture (status (demoNoteCallback first_demo_event (initialEngine 5 None))) = None"
    by (simp add: demoNoteCallback_fields Let_def)
  show "map_sum id (lastGesture \<circ> status) (handleGesture first_demo_tap (initialEngine 5 None))
       = Inr (Some first_demo_tap)"
    by (simp add: handleGesture_prepared first_demo_tap_def captureTap_fields Let_def)
  show "message (status (demoNoteCallback first_demo_event (initialEngine 5 None)))
       = Some ''Demo note E2''"
    by (simp add: demoNoteCallback_fields Let_def first_demo_event_def findIndex_string
        pitch_label_createPitchSnapshot low_e_string MAX_FRET_def first_demo_label)
  show "map_sum id (message \<circ> status) (handleGesture first_demo_tap (initialEngine 5 None))
       = Inr (Some ''Trigger E2'')"
    by (simp add: handleGesture_prepared first_demo_tap_def captureTap_fields Let_def
        first_demo_tap_position pitch_label_createPitchSnapshot low_e_string MAX_FRET_def
        first_demo_label)
qed

lemma device_calls_prepared:
  "device_calls (new_effects s (prepared g s)) = []"
  by (simp add: new_effects_def prepared_journal device_calls_Cons)

text \<open>
  C2, amended. For every entry of the demo script, the scheduled per-event callback makes
  the same updates to the fretted state, to the last-touched position and to the status
  fields \<open>activeString\<close>, \<open>strum\<close>, \<open>slide\<close> and \<open>chord\<close>, and the same calls on
  the tone device, as handling a tap of the entry's duration on the same string and fret;
  it does not append to the gesture log, it sets no last gesture, and its message reads
  "Demo note" where the tap handler's reads "Trigger".
\<close>

theorem demo_note_matches_tap:
  assumes "event \<in> set CLASSICAL_DEMO_SEQUENCE"
    and "findStringIndexFromY y
           = findIndex (\<lambda>entry. string_id entry = ev_stringId event) GUITAR_STRINGS"
    and "computeFretFromRelativeX (map_option fst relativePosition) = ev_fret event"
  shows "\<exists>s'. handleGesture (Tap (x, y) (Val (ev_durationMs event)) relativePosition) s = Inr s'
     \<and> frettedStringsRef (demoNoteCallback event s) = frettedStringsRef s'
     \<and> last_touched (demoNoteCallback event s) = last_touched s'
     \<and> activeString (status (demoNoteCallback event s)) = activeString (status s')
     \<and> strum (status (demoNoteCallback event s)) = strum (status s')
     \<and> slide (status (demoNoteCallback event s)) = slide (status s')
     \<and> chord (status (demoNoteCallback event s)) = chord (status s')
     \<and> device_calls (new_effects s (demoNoteCallback event s)) = device_calls (new_effects s s')
     \<and> gestureLog (demoNoteCallback event s) = gestureLog s
     \<and> gestureLog s' = take (logLimit s)
          (Tap (x, y) (Val (ev_durationMs event)) relativePosition # gestureLog s)
     \<and> lastGesture (status (demoNoteCallback event s)) = None
     \<and> lastGesture (status s') = Some (Tap (x, y) (Val (ev_durationMs event)) relativePosition)
     \<and> (\<exists>label. message (status (demoNoteCallback event s)) = Some (''Demo note '' @ label)
                \<and> message (status s') = Some (''Trigger '' @ label))"
proof -
  have fret: "clamp (Val (ev_fret event)) 0 MAX_FRET = ev_fret event"
    using computeFret_range [of "map_option fst relativePosition"] assms(3)
    by (simp add: MAX_FRET_def)
  show ?thesis
    using assms(2,3) fret
    by (simp add: handleGesture_prepared captureTap_fields demoNoteCallback_fields
        last_touched_def Let_def new_effects_def prepared_journal device_calls_Cons)
qed

theorem demo_note_matches_tap_witness:
  "first_demo_event \<in> set CLASSICAL_DEMO_SEQUENCE
   \<and> findStringIndexFromY (Val 240)
       = findIndex (\<lambda>entry. string_id entry = ev_stringId first_demo_event) GUITAR_STRINGS
   \<and> computeFretFromRelativeX (map_option fst (Some (Val (1 / 10), Val 0)))
       = ev_fret first_demo_event
   \<and> (\<exists>s'. handleGesture first_demo_tap (initialEngine 5 (Some sample_context)) = Inr s'
         \<and> frettedStringsRef (demoNoteCallback first_demo_event (initialEngine 5 (Some sample_context)))
             = frettedStringsRef s'
         \<and> device_calls (new_effects (initialEngine 5 (Some sample_context))
                           (demoNoteCallback first_demo_event (initialEngine 5 (Some sample_context))))
             = device_calls (new_effects (initialEngine 5 (Some sample_context)) s')
         \<and> gestureLog (demoNoteCallback first_demo_event (initialEngine 5 (Some sample_context))) = []
         \<and> gestureLog s' = [first_demo_tap])"
proof -
  have a: "first_demo_event \<in> set CLASSICAL_DEMO_SEQUENCE"
    by (simp add: first_demo_event_def CLASSICAL_DEMO_SEQUENCE_def)
  have b: "findStringIndexFromY (Val 240)
       = findIndex (\<lambda>entry. string_id entry = ev_stringId first_demo_event) GUITAR_STRINGS"
    by (simp add: first_demo_tap_position findIndex_string first_demo_event_def)
  have c: "computeFretFromRelativeX (map_option fst (Some (Val (1 / 10), Val 0)))
       = ev_fret first_demo_event"
    by (simp add: first_demo_tap_position first_demo_event_def)
  have d: "ev_durationMs first_demo_event = 460"
    by (simp add: first_demo_event_def)
  show ?thesis
    using a b c demo_note_matches_tap [OF a b c, of "Val 0" "initialEngine 5 (Some sample_context)"]
    by (auto simp add: first_demo_tap_def d initialEngine_def)
qed

lemma handleGesture_after_prepared:
  assumes "index_ok s"
  shows "\<exists>s' rest. handleGesture g s = Inr s' \<and> journal s' = journal (prepared g s) @ rest
           \<and> demoTimeoutsRef s' = [] \<and> \<not> isDemoPlaying s'"
proof (cases g)
  case (Tap p d r)
  then show ?thesis by (simp add: handleGesture_prepared captureTap_fields)
next
  case (Strum dir dstn sp r)
  then show ?thesis by (simp add: handleGesture_prepared captureStrum_fields)
next
  case (Slide dir dstn sp r)
  from assms obtain sd where
    "GUITAR_STRINGS_at (case lastStringIndexRef (prepared g s) of Some i \<Rightarrow> i | None \<Rightarrow> 3) = Some sd"
    using index_ok_anchor [of s] by auto
  from captureSlide_Inr [OF this, of dir dstn sp r]
  show ?thesis using Slide by (auto simp add: handleGesture_prepared)
next
  case (Unknown d)
  then show ?thesis by (simp add: handleGesture_prepared setStatus_def record_effects_def)
qed

lemma fireDemoTimeout_none: "demoTimeoutsRef s = [] \<Longrightarrow> fireDemoTimeout tid s = s"
  by (simp add: fireDemoTimeout_def)

text \<open>
  C4. Starting a demo while one is active changes nothing. A live gesture received while
  a demo is active is handled successfully, and what its handling does begins with the
  cancellation: the journal of the handler starts with a \<open>clearTimeout\<close> for every pending
  demo timer, the emptying of the timer list and the clearing of the demo-active flag,
  and only then come the log append, the headline and the gesture's own mutations.
  Afterwards no demo timer is pending, the flag is clear, and no timer handle fires.
\<close>

theorem demo_interruption:
  "(isDemoPlaying s \<longrightarrow> playDemo s = s)
   \<and> (isDemoPlaying s \<and> index_ok s \<longrightarrow>
        (\<exists>s' rest. handleGesture g s = Inr s'
           \<and> new_effects s s' =
               map (\<lambda>t. ClearTimeout (timeout_id t)) (demoTimeoutsRef s)
               @ [ResetDemoTimeouts, SetIsDemoPlaying False]
               @ [SetGestureLog, SetHeadline] @ rest
           \<and> demoTimeoutsRef s' = [] \<and> \<not> isDemoPlaying s'
           \<and> fireDemoTimeout tid s' = s'))"
proof (intro conjI impI)
  assume "isDemoPlaying s"
  then show "playDemo s = s" by (rule playDemo_active)
next
  assume h: "isDemoPlaying s \<and> index_ok s"
  then obtain s' rest where r: "handleGesture g s = Inr s'"
      "journal s' = journal (prepared g s) @ rest" "demoTimeoutsRef s' = []" "\<not> isDemoPlaying s'"
    using handleGesture_after_prepared [of s g] by blast
  have "new_effects s s' =
               map (\<lambda>t. ClearTimeout (timeout_id t)) (demoTimeoutsRef s)
               @ [ResetDemoTimeouts, SetIsDemoPlaying False]
               @ [SetGestureLog, SetHeadline] @ rest"
    using h r(2) by (simp add: new_effects_def prepared_journal)
  then show "\<exists>s' rest. handleGesture g s = Inr s'
           \<and> new_effects s s' =
               map (\<lambda>t. ClearTimeout (timeout_id t)) (demoTimeoutsRef s)
               @ [ResetDemoTimeouts, SetIsDemoPlaying False]
               @ [SetGestureLog, SetHeadline] @ rest
           \<and> demoTimeoutsRef s' = [] \<and> \<not> isDemoPlaying s'
           \<and> fireDemoTimeout tid s' = s'"
    using r fireDemoTimeout_none [of s' tid] by blast
qed

theorem demo_interruption_witness:
  "isDemoPlaying (playDemo (initialEngine 5 None))
   \<and> index_ok (playDemo (initialEngine 5 None))
   \<and> length (demoTimeoutsRef (playDemo (initialEngine 5 None))) = 18
   \<and> playDemo (playDemo (initialEngine 5 None)) = playDemo (initialEngine 5 None)
   \<and> (\<exists>s' rest. handleGesture sample_tap (playDemo (initialEngine 5 None)) = Inr s'
           \<and> new_effects (playDemo (initialEngine 5 None)) s' =
               map (\<lambda>t. ClearTimeout (timeout_id t)) (demoTimeoutsRef (playDemo (initialEngine 5 None)))
               @ [ResetDemoTimeouts, SetIsDemoPlaying False]
               @ [SetGestureLog, SetHeadline] @ rest
           \<and> demoTimeoutsRef s' = [] \<and> \<not> isDemoPlaying s'
           \<and> fireDemoTimeout 0 s' = s')"
proof -
  have n: "\<not> isDemoPlaying (initialEngine 5 None)"
    by (simp add: initialEngine_def)
  have a: "isDemoPlaying (playDemo (initialEngine 5 None))"
    using playDemo_starts(1) [OF n] .
  have b: "index_ok (playDemo (initialEngine 5 None))"
    using playDemo_starts(2) [OF n] by (simp add: index_ok_def initialEngine_def)
  have c: "length (demoTimeoutsRef (playDemo (initialEngine 5 None))) = 18"
    using playDemo_starts(3) [OF n] by (simp add: CLASSICAL_DEMO_SEQUENCE_def)
  show ?thesis
    using a b c demo_interruption [of "playDemo (initialEngine 5 None)" sample_tap 0]
    by simp
qed

section \<open>Properties of the synthesis dispatcher\<close>

lemma tone_frequencies_append [simp]:
  "tone_frequencies (xs @ ys) = tone_frequencies xs @ tone_frequencies ys"
  by (simp add: tone_frequencies_def List.map_filter_def)

lemma tone_frequencies_playFrequency:
  "tone_frequencies (playFrequency (Some ctx) f d v delay) = [f]"
  by (simp add: playFrequency_def ensureContextReady_def Let_def tone_frequencies_def
      List.map_filter_def)

lemma tone_frequencies_Nil [simp]: "tone_frequencies [] = []"
  by (simp add: tone_frequencies_def List.map_filter_def)

lemma tone_frequencies_triggerStrum:
  "tone_frequencies (triggerStrum (Some ctx) direction speed) =
     map (\<lambda>stringDef. midiToFrequency (string_midi stringDef))
         (if direction = Down then GUITAR_STRINGS else rev GUITAR_STRINGS)"
  by (cases direction)
     (simp_all add: triggerStrum_def Let_def GUITAR_STRINGS_def tone_frequencies_playFrequency)

lemma triggerStrum_unavailable: "triggerStrum None direction speed = []"
  by (simp add: triggerStrum_def Let_def playFrequency_def)

text \<open>
  C10. A strum dispatches exactly the calls of \<open>triggerStrum\<close> on the device of the
  engine. With a device, these synthesize six tones, one per string in the order of the
  direction, each at \<open>midiToFrequency\<close> of the string's open pitch number; without a
  device nothing is dispatched. The calls do not depend on the fretted state: replacing
  it by any other leaves the dispatched calls the same.
\<close>

theorem strum_open_string_frequencies:
  "(\<exists>s'. handleGesture (Strum direction distance speed rel) s = Inr s'
         \<and> device_calls (new_effects s s') = triggerStrum (audioContext s) direction speed)
   \<and> tone_frequencies (triggerStrum (Some ctx) direction speed) =
       map (\<lambda>stringDef. midiToFrequency (string_midi stringDef))
           (if direction = Down then GUITAR_STRINGS else rev GUITAR_STRINGS)
   \<and> length (tone_frequencies (triggerStrum (Some ctx) direction speed)) = 6
   \<and> triggerStrum None direction speed = []
   \<and> map_sum id (\<lambda>s'. device_calls (new_effects (s\<lparr>frettedStringsRef := fretted\<rparr>) s'))
        (handleGesture (Strum direction distance speed rel) (s\<lparr>frettedStringsRef := fretted\<rparr>))
      = map_sum id (\<lambda>s'. device_calls (new_effects s s'))
          (handleGesture (Strum direction distance speed rel) s)"
proof (intro conjI)
  show "\<exists>s'. handleGesture (Strum direction distance speed rel) s = Inr s'
         \<and> device_calls (new_effects s s') = triggerStrum (audioContext s) direction speed"
    by (simp add: handleGesture_prepared captureStrum_fields new_effects_def prepared_journal
        device_calls_Cons)
  show "tone_frequencies (triggerStrum (Some ctx) direction speed) =
       map (\<lambda>stringDef. midiToFrequency (string_midi stringDef))
           (if direction = Down then GUITAR_STRINGS else rev GUITAR_STRINGS)"
    by (rule tone_frequencies_triggerStrum)
  show "length (tone_frequencies (triggerStrum (Some ctx) direction speed)) = 6"
    by (simp add: tone_frequencies_triggerStrum)
  show "triggerStrum None direction speed = []"
    by (rule triggerStrum_unavailable)
  show "map_sum id (\<lambda>s'. device_calls (new_effects (s\<lparr>frettedStringsRef := fretted\<rparr>) s'))
        (handleGesture (Strum direction distance speed rel) (s\<lparr>frettedStringsRef := fretted\<rparr>))
      = map_sum id (\<lambda>s'. device_calls (new_effects s s'))
          (handleGesture (Strum direction distance speed rel) s)"
    by (simp add: handleGesture_prepared captureStrum_fields new_effects_def prepared_journal
        device_calls_Cons prepared_def engine_defs)
qed

lemma midiToFrequency_shift:
  "midiToFrequency m * 2 powr (x / 12) = 440 * 2 powr ((real_of_int m + x - 69) / 12)"
  "midiToFrequency m / 2 powr (x / 12) = 440 * 2 powr ((real_of_int m - x - 69) / 12)"
proof -
  have e: "(real_of_int m - 69) / 12 + x / 12 = (real_of_int m + x - 69) / 12"
    by (simp add: field_simps)
  have "midiToFrequency m * 2 powr (x / 12)
          = 440 * (2 powr ((real_of_int m - 69) / 12) * 2 powr (x / 12))"
    by (simp add: midiToFrequency_def)
  also have "\<dots> = 440 * 2 powr ((real_of_int m - 69) / 12 + x / 12)"
    by (simp only: powr_add)
  also have "\<dots> = 440 * 2 powr ((real_of_int m + x - 69) / 12)"
    by (simp only: e)
  finally show "midiToFrequency m * 2 powr (x / 12) = 440 * 2 powr ((real_of_int m + x - 69) / 12)" .
  have f: "(real_of_int m - 69) / 12 - x / 12 = (real_of_int m - x - 69) / 12"
    by (simp add: field_simps)
  have "midiToFrequency m / 2 powr (x / 12)
          = 440 * (2 powr ((real_of_int m - 69) / 12) / 2 powr (x / 12))"
    by (simp add: midiToFrequency_def)
  also have "\<dots> = 440 * 2 powr ((real_of_int m - 69) / 12 - x / 12)"
    by (simp only: powr_diff)
  also have "\<dots> = 440 * 2 powr ((real_of_int m - x - 69) / 12)"
    by (simp only: f)
  finally show "midiToFrequency m / 2 powr (x / 12) = 440 * 2 powr ((real_of_int m - x - 69) / 12)" .
qed

lemma midiToFrequency_eq_iff:
  "440 * 2 powr ((x - 69) / 12) = midiToFrequency m \<longleftrightarrow> x = real_of_int m"
proof -
  have "(2::real) powr ((x - 69) / 12) = 2 powr ((real_of_int m - 69) / 12)
          \<longleftrightarrow> (x - 69) / 12 = (real_of_int m - 69) / 12"
    by (rule powr_inj) simp_all
  then show ?thesis by (auto simp add: midiToFrequency_def)
qed

text \<open>The sustain of a slide lies between 0.3 and 1 second.\<close>

lemma sustain_range:
  "3 / 10 \<le> clamp (lift1 (\<lambda>d. d / 180) distance) (3 / 10) 1
   \<and> clamp (lift1 (\<lambda>d. d / 180) distance) (3 / 10) (1::real) \<le> 1"
  by (cases distance) simp_all

lemma midiToFrequency_inj: "midiToFrequency a = midiToFrequency b \<longleftrightarrow> a = b"
  using midiToFrequency_eq_iff [of "real_of_int a" b] by (simp add: midiToFrequency_def)

lemma triggerSlide_frequency_calls:
  assumes "osc_has_setValueAtTime ctx" "osc_has_linearRamp ctx"
  shows "filter is_frequency_call (triggerSlide (Some ctx) stringIndex direction distance speed startFret) =
     (let baseString = GUITAR_STRINGS ! nat (clamp (Val stringIndex) 0 5);
          startPitch = string_midi baseString + clamp (Val startFret) 0 MAX_FRET;
          semitones = mapDistanceToSlideSemitones distance;
          sustain = clamp (lift1 (\<lambda>d. d / 180) distance) (3 / 10) 1
      in [FrequencySetValueAtTime (midiToFrequency startPitch) (currentTime ctx),
          FrequencyLinearRamp
            (440 * 2 powr ((real_of_int startPitch
                             + (if direction = Right then semitones else - semitones) - 69) / 12))
            (currentTime ctx + sustain)])"
  using assms
  by (simp add: triggerSlide_def Let_def ensureContextReady_def midiToFrequency_shift)

lemma slide_dispatch:
  assumes "index_ok s"
  shows "\<exists>s'. handleGesture (Slide direction distance speed rel) s = Inr s'
     \<and> device_calls (new_effects s s') =
         triggerSlide (audioContext s) (case lastStringIndexRef s of Some i \<Rightarrow> i | None \<Rightarrow> 3)
           direction distance speed (lastFretRef s)
     \<and> active_pitch s' =
         Some (computeSlideTargetFret (lastFretRef s) direction distance,
               midiToFrequency
                 ((case GUITAR_STRINGS_at (case lastStringIndexRef s of Some i \<Rightarrow> i | None \<Rightarrow> 3) of
                     Some sd \<Rightarrow> string_midi sd | None \<Rightarrow> 0)
                  + computeSlideTargetFret (lastFretRef s) direction distance))"
proof -
  from assms obtain sd where sd:
    "GUITAR_STRINGS_at (case lastStringIndexRef (prepared (Slide direction distance speed rel) s) of
                          Some i \<Rightarrow> i | None \<Rightarrow> 3) = Some sd"
    using index_ok_anchor [of s] by auto
  from captureSlide_Inr [OF sd, of direction distance speed rel] sd
  show ?thesis
    using computeSlideTargetFret_range [of "lastFretRef s" direction distance]
    by (auto simp add: handleGesture_prepared new_effects_def prepared_journal device_calls_Cons
        Let_def createPitchSnapshot_def MAX_FRET_def active_pitch_def)
qed

lemma sample_slide_semitones:
  "mapDistanceToSlideSemitones (Val 100) = 5 / 2" "computeSlideTargetFret 0 Right (Val 100) = 3"
  "mapDistanceToSlideSemitones (Val 40) = 1" "computeSlideTargetFret 12 Right (Val 40) = 12"
  "mapDistanceToSlideSemitones (Val 200) = 5" "computeSlideTargetFret 0 Left (Val 200) = 0"
  by (simp_all add: computeSlideTargetFret_def mapDistanceToSlideSemitones_def Math_round_def
      MAX_FRET_def)

lemma sample_strings:
  "string_midi (GUITAR_STRINGS ! 3) = 50" "string_midi (GUITAR_STRINGS ! 0) = 64"
  "GUITAR_STRINGS_at 3 = Some (GUITAR_STRINGS ! 3)" "GUITAR_STRINGS_at 0 = Some (GUITAR_STRINGS ! 0)"
  by (simp_all add: GUITAR_STRINGS_def GUITAR_STRINGS_at_def)

lemma fret12_fields:
  "lastStringIndexRef fret12_engine = Some 0" "lastFretRef fret12_engine = 12"
  "audioContext fret12_engine = Some sample_context"
  by (simp_all add: fret12_engine_def captureTap_fields initialEngine_def
      findStringIndexFromY_def STRING_TOP_OFFSET_PX_def STRING_SPACING_PX_def Math_round_def
      fret_defs)

lemma sample_slide_calls:
  "filter is_frequency_call (triggerSlide (Some sample_context) 3 Left (Val 200) (Val 1) 0)
     = [FrequencySetValueAtTime (midiToFrequency 50) 0, FrequencyLinearRamp (midiToFrequency 45) 1]"
  "filter is_frequency_call (triggerSlide (Some sample_context) 0 Right (Val 40) (Val 1) 12)
     = [FrequencySetValueAtTime (midiToFrequency 76) 0,
        FrequencyLinearRamp (midiToFrequency 77) (3 / 10)]"
  "filter is_frequency_call (triggerSlide (Some sample_context) 3 Right (Val 100) (Val 1) 0)
     = [FrequencySetValueAtTime (midiToFrequency 50) 0,
        FrequencyLinearRamp (440 * 2 powr ((50 + 5 / 2 - 69) / 12)) (5 / 9)]"
proof -
  have caps: "osc_has_setValueAtTime sample_context" "osc_has_linearRamp sample_context"
    and t: "currentTime sample_context = 0"
    by (simp_all add: sample_context_def)
  have down: "440 * 2 powr ((50 - 5 - 69) / 12) = midiToFrequency 45"
    using midiToFrequency_eq_iff [of "50 - 5" 45] by simp
  have up: "440 * 2 powr ((76 + 1 - 69) / 12) = midiToFrequency 77"
    using midiToFrequency_eq_iff [of "76 + 1" 77] by simp
  show "filter is_frequency_call (triggerSlide (Some sample_context) 3 Left (Val 200) (Val 1) 0)
     = [FrequencySetValueAtTime (midiToFrequency 50) 0, FrequencyLinearRamp (midiToFrequency 45) 1]"
    using down
    by (simp add: triggerSlide_frequency_calls [OF caps] Let_def sample_slide_semitones
        sample_strings MAX_FRET_def t)
  show "filter is_frequency_call (triggerSlide (Some sample_context) 0 Right (Val 40) (Val 1) 12)
     = [FrequencySetValueAtTime (midiToFrequency 76) 0,
        FrequencyLinearRamp (midiToFrequency 77) (3 / 10)]"
    using up
    by (simp add: triggerSlide_frequency_calls [OF caps] Let_def sample_slide_semitones
        sample_strings MAX_FRET_def t)
  show "filter is_frequency_call (triggerSlide (Some sample_context) 3 Right (Val 100) (Val 1) 0)
     = [FrequencySetValueAtTime (midiToFrequency 50) 0,
        FrequencyLinearRamp (440 * 2 powr ((50 + 5 / 2 - 69) / 12)) (5 / 9)]"
    by (simp add: triggerSlide_frequency_calls [OF caps] Let_def sample_slide_semitones
        sample_strings MAX_FRET_def t)
qed

text \<open>
  C5. The claim has every slide ramp the tone from the start pitch's frequency to the
  frequency of the slide's clamped target fret, over a sustain proportional to the
  distance and clamped to [0.3 s, 1.0 s]. The engine's ramp ends elsewhere. On a fresh
  engine (anchor: the open D string, pitch number 50), a slide of 200 px to the left has
  the target fret 0, of pitch number 50, in the status, and ramps the tone down to pitch
  number 45. After a tap at the twelfth fret of the high E string (pitch number 76), a
  slide of 40 px to the right has the target fret 12 in the status and ramps the tone up
  to pitch number 77. On a fresh engine, a slide of 100 px to the right has the target
  fret 3, of pitch number 53, in the status and ramps the tone 2.5 semitones up from pitch
  number 50. The sustains (1 s, 0.3 s and 100/180 s) are as the claim says.
\<close>

theorem slide_target_frequency_mismatch:
  "map_sum id (frequency_schedule (initialEngine 5 (Some sample_context)))
       (handleGesture sample_slide_left (initialEngine 5 (Some sample_context)))
     = Inr [FrequencySetValueAtTime (midiToFrequency 50) 0,
            FrequencyLinearRamp (midiToFrequency 45) 1]
   \<and> map_sum id active_pitch
         (handleGesture sample_slide_left (initialEngine 5 (Some sample_context)))
     = Inr (Some (0, midiToFrequency 50))
   \<and> midiToFrequency 45 \<noteq> midiToFrequency 50
   \<and> handleGesture fret12_tap (initialEngine 5 (Some sample_context)) = Inr fret12_engine
   \<and> map_sum id (frequency_schedule fret12_engine) (handleGesture sample_slide_short fret12_engine)
       = Inr [FrequencySetValueAtTime (midiToFrequency 76) 0,
              FrequencyLinearRamp (midiToFrequency 77) (3 / 10)]
   \<and> map_sum id active_pitch (handleGesture sample_slide_short fret12_engine)
       = Inr (Some (12, midiToFrequency 76))
   \<and> midiToFrequency 77 \<noteq> midiToFrequency 76
   \<and> map_sum id (frequency_schedule (initialEngine 5 (Some sample_context)))
         (handleGesture sample_slide (initialEngine 5 (Some sample_context)))
       = Inr [FrequencySetValueAtTime (midiToFrequency 50) 0,
              FrequencyLinearRamp (440 * 2 powr ((50 + 5 / 2 - 69) / 12)) (5 / 9)]
   \<and> map_sum id active_pitch (handleGesture sample_slide (initialEngine 5 (Some sample_context)))
       = Inr (Some (3, midiToFrequency 53))
   \<and> 440 * 2 powr ((50 + 5 / 2 - 69) / 12) \<noteq> midiToFrequency 53"
proof (intro conjI)
  have ok: "index_ok (initialEngine 5 (Some sample_context))"
    by (simp add: index_ok_def initialEngine_def)
  have ok12: "index_ok fret12_engine"
    by (simp add: index_ok_def fret12_fields)
  from slide_dispatch [OF ok, of Left "Val 200" "Val 1" None]
  show "map_sum id (frequency_schedule (initialEngine 5 (Some sample_context)))
       (handleGesture sample_slide_left (initialEngine 5 (Some sample_context)))
     = Inr [FrequencySetValueAtTime (midiToFrequency 50) 0,
            FrequencyLinearRamp (midiToFrequency 45) 1]"
    by (auto simp add: sample_slide_left_def initialEngine_def sample_slide_calls
        frequency_schedule_def)
  from slide_dispatch [OF ok, of Left "Val 200" "Val 1" None]
  show "map_sum id active_pitch
         (handleGesture sample_slide_left (initialEngine 5 (Some sample_context)))
     = Inr (Some (0, midiToFrequency 50))"
    by (auto simp add: sample_slide_left_def initialEngine_def sample_slide_semitones
        sample_strings)
  show "midiToFrequency 45 \<noteq> midiToFrequency 50"
    by (simp add: midiToFrequency_inj)
  show "handleGesture fret12_tap (initialEngine 5 (Some sample_context)) = Inr fret12_engine"
    by (simp add: handleGesture_prepared fret12_tap_def fret12_engine_def)
  from slide_dispatch [OF ok12, of Right "Val 40" "Val 1" None]
  show "map_sum id (frequency_schedule fret12_engine) (handleGesture sample_slide_short fret12_engine)
       = Inr [FrequencySetValueAtTime (midiToFrequency 76) 0,
              FrequencyLinearRamp (midiToFrequency 77) (3 / 10)]"
    by (auto simp add: sample_slide_short_def fret12_fields sample_slide_calls
        frequency_schedule_def)
  from slide_dispatch [OF ok12, of Right "Val 40" "Val 1" None]
  show "map_sum id active_pitch (handleGesture sample_slide_short fret12_engine)
       = Inr (Some (12, midiToFrequency 76))"
    by (auto simp add: sample_slide_short_def fret12_fields sample_slide_semitones sample_strings)
  show "midiToFrequency 77 \<noteq> midiToFrequency 76"
    by (simp add: midiToFrequency_inj)
  from slide_dispatch [OF ok, of Right "Val 100" "Val 1" None]
  show "map_sum id (frequency_schedule (initialEngine 5 (Some sample_context)))
         (handleGesture sample_slide (initialEngine 5 (Some sample_context)))
       = Inr [FrequencySetValueAtTime (midiToFrequency 50) 0,
              FrequencyLinearRamp (440 * 2 powr ((50 + 5 / 2 - 69) / 12)) (5 / 9)]"
    by (auto simp add: sample_slide_def initialEngine_def sample_slide_calls
        frequency_schedule_def)
  from slide_dispatch [OF ok, of Right "Val 100" "Val 1" None]
  show "map_sum id active_pitch (handleGesture sample_slide (initialEngine 5 (Some sample_context)))
       = Inr (Some (3, midiToFrequency 53))"
    by (auto simp add: sample_slide_def initialEngine_def sample_slide_semitones sample_strings)
  show "440 * 2 powr ((50 + 5 / 2 - 69) / 12) \<noteq> midiToFrequency 53"
    using midiToFrequency_eq_iff [of "50 + 5 / 2" 53] by simp
qed

subsection \<open>The remembered string index stays inside the array\<close>

lemma index_ok_initial: "index_ok (initialEngine limit ctx)"
  by (simp add: index_ok_def initialEngine_def)

lemma index_ok_demoNoteCallback: "index_ok (demoNoteCallback event s)"
  using findIndex_string_range [of "ev_stringId event"]
  by (simp add: index_ok_def demoNoteCallback_fields)

lemma index_ok_demoCompletionCallback:
  "index_ok (demoCompletionCallback s) = index_ok s"
  by (simp add: index_ok_def demoCompletionCallback_def Let_def engine_defs)

lemma index_ok_playDemo: "index_ok (playDemo s) = index_ok s"
proof (cases "isDemoPlaying s")
  case True
  then show ?thesis by (simp add: playDemo_active)
next
  case False
  then show ?thesis by (simp add: index_ok_def playDemo_starts)
qed

lemma index_ok_fireDemoTimeout:
  "index_ok s \<Longrightarrow> index_ok (fireDemoTimeout tid s)"
proof -
  assume ok: "index_ok s"
  have r: "index_ok (record_effects es (s\<lparr>demoTimeoutsRef := ts\<rparr>))" for es ts
    using ok by (simp add: index_ok_def record_effects_def)
  show ?thesis
    using ok
    by (simp add: fireDemoTimeout_def Let_def index_ok_demoNoteCallback
        index_ok_demoCompletionCallback r split: option.splits DemoCallback.splits)
qed

lemma handleGesture_total:
  assumes "index_ok s"
  shows "\<exists>s'. handleGesture g s = Inr s' \<and> index_ok s'"
proof (cases g)
  case (Tap p d r)
  then show ?thesis
    using findStringIndexFromY_range [of "snd p"]
    by (simp add: handleGesture_prepared index_ok_def captureTap_fields)
next
  case (Strum dir dstn sp r)
  then show ?thesis by (simp add: handleGesture_prepared index_ok_def captureStrum_fields)
next
  case (Slide dir dstn sp r)
  from assms obtain sd where sd:
    "GUITAR_STRINGS_at (case lastStringIndexRef (prepared g s) of Some i \<Rightarrow> i | None \<Rightarrow> 3) = Some sd"
    using index_ok_anchor [of s] by auto
  from captureSlide_Inr [OF sd, of dir dstn sp r] sd
  show ?thesis using Slide
    by (auto simp add: handleGesture_prepared index_ok_def GUITAR_STRINGS_at_def
        split: if_splits)
next
  case (Unknown d)
  then show ?thesis
    using assms by (simp add: handleGesture_prepared index_ok_def setStatus_def record_effects_def)
qed

lemma run_gestures_total: "index_ok s \<Longrightarrow> \<exists>s'. run_gestures gs s = Inr s' \<and> index_ok s'"
proof (induction gs arbitrary: s)
  case Nil
  then show ?case by simp
next
  case (Cons g gs)
  from handleGesture_total [OF Cons.prems, of g]
  obtain s1 where "handleGesture g s = Inr s1" "index_ok s1" by blast
  then show ?case using Cons.IH [of s1] by simp
qed

subsection \<open>A tap for every entry of the demo script\<close>

lemma demo_entries_have_taps:
  "list_all (\<lambda>event.
       findStringIndexFromY
           (Val (40 + 40 * real_of_int (findIndex (\<lambda>entry. string_id entry = ev_stringId event)
                                           GUITAR_STRINGS)))
         = findIndex (\<lambda>entry. string_id entry = ev_stringId event) GUITAR_STRINGS
       \<and> computeFretFromRelativeX (Some (Val (1 / 10 + 8 / 10 * real_of_int (ev_fret event) / 12)))
         = ev_fret event)
     CLASSICAL_DEMO_SEQUENCE"
  by (simp add: CLASSICAL_DEMO_SEQUENCE_def findIndex_string findStringIndexFromY_def
      STRING_TOP_OFFSET_PX_def STRING_SPACING_PX_def Math_round_def fret_defs)

end
